theory Spec2Isabelle
  imports Complex_Main "HOL-Library.Word" "HOL-Library.AList"
begin

section \<open>Values shared by the notebooks\<close>

text \<open>
  The notebooks are Python. An exception is a value of type \<open>error\<close>, and a call that may
  raise returns \<open>error + 'a\<close> with \<open>Inl\<close> for the exception. \<open>Raised\<close> stands for an
  exception of an external collaborator (the pipeline, the encoder body).
\<close>

datatype error =
    ValueError
  | RuntimeError
  | IndexError
  | AttributeError
  | NameError
  | FileNotFoundError
  | IsADirectoryError
  | OSError
  | Raised string

text \<open>
  A Python float is idealised: \<open>Finite r\<close> for a number, read as the real \<open>r\<close> (rounding
  and overflow are not modelled), and \<open>NaN\<close> for the undefined result of \<open>0 / 0\<close> or of a
  mean over no element.
\<close>

datatype scalar = NaN | Finite real

fun smul :: "real \<Rightarrow> scalar \<Rightarrow> scalar" where
  "smul c NaN = NaN"
| "smul c (Finite r) = Finite (c * r)"


section \<open>The efficiency notebook: the performance benchmark\<close>

subsection \<open>The world the benchmark runs in\<close>

type_synonym bytes = "8 word list"

text \<open>
  What the benchmark prints: the two f-strings of the source, kept as the values they
  format.
\<close>

datatype line =
    ModelSize scalar
  | AverageLatency scalar scalar

text \<open>
  The working directory. A name is bound to a hard link to a file (the file is known by
  its inode number, and several names can share one), to a symbolic link to another
  name, or to a directory (with the size \<open>stat\<close> reports for it). The contents of the
  files are kept by inode number. Both tables are association lists, read with
  \<open>map_of\<close>.
\<close>

datatype entry =
    File nat
  | Symlink string
  | Directory nat

text \<open>
  The state a benchmark method runs in: the working directory, whether the operating
  system refuses to write to it (a read-only file system), the lines printed so far,
  and \<open>ext\<close>, the rest of the world (the clock, the internal state of the pipeline), which
  only the external calls read and change.
\<close>

record 'w world =
  entries :: "(string \<times> entry) list"
  contents :: "(nat \<times> bytes) list"
  read_only :: bool
  stdout :: "line list"
  ext :: 'w

text \<open>
  A call that may raise and changes the world returns the exception or the value,
  and the world it leaves: what was done before an exception stays done.

  \<open>self\<close> of the two methods. \<open>state_dict\<close> is what \<open>self.pipeline.model.state_dict()\<close>
  returns, \<open>pipeline\<close> is the call \<open>self.pipeline(query)\<close> on the rest of the world: it may
  raise, and its output is discarded by the source (\<open>_ = self.pipeline(query)\<close>).
\<close>

record ('sd, 'w) benchmark =
  state_dict :: 'sd
  pipeline :: "string \<Rightarrow> 'w \<Rightarrow> (error + unit) \<times> 'w"

subsection \<open>Library calls of \<open>compute_size\<close>\<close>

text \<open>
  The calls into PyTorch and \<open>pathlib\<close> are not code of the notebook. They are modelled
  from their documentation and from what the operating system does with a path.

  Opening or inspecting a path follows symbolic links, at most forty of them (more is
  the error \<open>ELOOP\<close>). \<open>resolve\<close> gives the name the path ends at and what is bound to
  it, which is never a symbolic link.
\<close>

primrec resolve :: "nat \<Rightarrow> (string \<times> entry) list \<Rightarrow> string \<Rightarrow> error + (string \<times> entry option)" where
  "resolve 0 es path =
     (case map_of es path of
        Some (Symlink target) \<Rightarrow> Inl OSError
      | e \<Rightarrow> Inr (path, e))"
| "resolve (Suc fuel) es path =
     (case map_of es path of
        Some (Symlink target) \<Rightarrow> resolve fuel es target
      | e \<Rightarrow> Inr (path, e))"

text \<open>The inode numbers in use, and one that is not: the number a new file gets.\<close>

fun inodes_of :: "(string \<times> entry) list \<Rightarrow> nat list" where
  "inodes_of [] = []"
| "inodes_of ((name, File i) # es) = i # inodes_of es"
| "inodes_of ((name, e) # es) = inodes_of es"

definition fresh_inode :: "'w world \<Rightarrow> nat" where
  "fresh_inode w = Suc (foldr max (map fst (contents w) @ inodes_of (entries w)) 0)"

text \<open>
  \<open>torch.save(obj, path)\<close> opens the path for writing and writes the serialised object.
  Opening fails on a read-only file system, on a directory and on a chain of symbolic
  links that is too long; it creates the file when the path ends at a name that is not
  bound, and truncates the file the path ends at otherwise, whatever other names that
  file has. The serialisation is the parameter \<open>serialise\<close>: the bytes written, or the
  exception raised while writing (a serialisation or an input/output error), which
  leaves the opened file behind, here empty.
\<close>

definition write_file :: "('sd \<Rightarrow> error + bytes) \<Rightarrow> 'sd \<Rightarrow> nat \<Rightarrow> 'w world \<Rightarrow> (error + unit) \<times> 'w world" where
  "write_file serialise obj i w =
     (case serialise obj of
        Inl e \<Rightarrow> (Inl e, w\<lparr>contents := AList.update i [] (contents w)\<rparr>)
      | Inr bs \<Rightarrow> (Inr (), w\<lparr>contents := AList.update i bs (contents w)\<rparr>))"

definition torch_save ::
  "('sd \<Rightarrow> error + bytes) \<Rightarrow> 'sd \<Rightarrow> string \<Rightarrow> 'w world \<Rightarrow> (error + unit) \<times> 'w world"
where
  "torch_save serialise obj path w =
     (if read_only w then (Inl OSError, w)
      else case resolve 40 (entries w) path of
             Inl e \<Rightarrow> (Inl e, w)
           | Inr (name, Some (Directory n)) \<Rightarrow> (Inl IsADirectoryError, w)
           | Inr (name, Some (Symlink target)) \<Rightarrow> (Inl OSError, w)
           | Inr (name, Some (File i)) \<Rightarrow> write_file serialise obj i w
           | Inr (name, None) \<Rightarrow>
               write_file serialise obj (fresh_inode w)
                 (w\<lparr>entries := AList.update name (File (fresh_inode w)) (entries w)\<rparr>))"

text \<open>
  \<open>Path(path).stat().st_size\<close>: the size in bytes of what the path ends at, following
  symbolic links; a name that is not bound raises.
\<close>

definition content_of :: "'w world \<Rightarrow> nat \<Rightarrow> bytes" where
  "content_of w i = (case map_of (contents w) i of None \<Rightarrow> [] | Some bs \<Rightarrow> bs)"

definition st_size :: "string \<Rightarrow> 'w world \<Rightarrow> error + nat" where
  "st_size path w =
     (case resolve 40 (entries w) path of
        Inl e \<Rightarrow> Inl e
      | Inr (name, None) \<Rightarrow> Inl FileNotFoundError
      | Inr (name, Some (Symlink target)) \<Rightarrow> Inl OSError
      | Inr (name, Some (Directory n)) \<Rightarrow> Inr n
      | Inr (name, Some (File i)) \<Rightarrow> Inr (length (content_of w i)))"

text \<open>
  \<open>path.unlink()\<close> removes the name itself, without following a symbolic link; the file
  goes with its last name. It raises on a name that is not bound, on a directory and on
  a read-only file system.
\<close>

definition unlink :: "string \<Rightarrow> 'w world \<Rightarrow> (error + unit) \<times> 'w world" where
  "unlink path w =
     (if read_only w then (Inl OSError, w)
      else case map_of (entries w) path of
             None \<Rightarrow> (Inl FileNotFoundError, w)
           | Some (Directory n) \<Rightarrow> (Inl IsADirectoryError, w)
           | Some (Symlink target) \<Rightarrow> (Inr (), w\<lparr>entries := AList.delete path (entries w)\<rparr>)
           | Some (File i) \<Rightarrow>
               (let es = AList.delete path (entries w)
                in (Inr (),
                    w\<lparr>entries := es,
                      contents := (if i \<in> set (inodes_of es) then contents w
                                   else AList.delete i (contents w))\<rparr>)))"

definition print :: "line \<Rightarrow> 'w world \<Rightarrow> 'w world" where
  "print l w = w\<lparr>stdout := stdout w @ [l]\<rparr>"

subsection \<open>\<open>compute_size\<close>\<close>

text \<open>
  \<^verbatim>\<open>
  def compute_size(self):
      state_dict = self.pipeline.model.state_dict()
      tmp_path = Path("model.pt")
      torch.save(state_dict, tmp_path)
      size_mb = Path(tmp_path).stat().st_size / (1024 * 1024)
      tmp_path.unlink()
      print(f"Model size (MB) - {size_mb:.2f}")
      return {"size_mb": size_mb}
  \<close>
  The returned dictionary is a map from its keys.
\<close>

definition compute_size ::
  "('sd \<Rightarrow> error + bytes) \<Rightarrow> ('sd, 'w) benchmark \<Rightarrow> 'w world
     \<Rightarrow> (error + (string \<rightharpoonup> scalar)) \<times> 'w world"
where
  "compute_size serialise self w =
     (let sd = state_dict self;
          tmp_path = ''model.pt''
      in case torch_save serialise sd tmp_path w of
           (Inl e, w1) \<Rightarrow> (Inl e, w1)
         | (Inr u, w1) \<Rightarrow>
             (case st_size tmp_path w1 of
                Inl e \<Rightarrow> (Inl e, w1)
              | Inr n \<Rightarrow>
                  (let size_mb = Finite (real n / (1024 * 1024))
                   in case unlink tmp_path w1 of
                        (Inl e, w2) \<Rightarrow> (Inl e, w2)
                      | (Inr u, w2) \<Rightarrow>
                          (let w3 = print (ModelSize size_mb) w2
                           in (Inr [''size_mb'' \<mapsto> size_mb], w3)))))"

subsection \<open>\<open>time_pipeline\<close>\<close>

text \<open>
  NumPy's \<open>np.mean\<close> and \<open>np.std\<close> (the population standard deviation, \<open>ddof = 0\<close>) of a
  list of floats, from their documentation; both are \<open>nan\<close> on the empty list.
\<close>

definition np_mean :: "real list \<Rightarrow> scalar" where
  "np_mean xs = (if xs = [] then NaN else Finite (sum_list xs / real (length xs)))"

definition np_std :: "real list \<Rightarrow> scalar" where
  "np_std xs =
     (if xs = [] then NaN
      else let m = sum_list xs / real (length xs)
           in Finite (sqrt (sum_list (map (\<lambda>x. \<bar>x - m\<bar> ^ 2) xs) / real (length xs))))"

text \<open>
  The two external calls. \<open>self.pipeline(query)\<close> acts on the rest of the world.
  \<open>perf_counter\<close> is a global name that the function looks up when it runs. The
  notebook binds it nowhere (it imports \<open>torch\<close>, \<open>Path\<close> and \<open>numpy\<close> only), so the binding
  is an argument: \<open>None\<close> for the notebook as it is, where the lookup raises
  \<open>NameError\<close>, and \<open>Some clock\<close> where an import such as
  \<open>from time import perf_counter\<close> has been run before, \<open>clock\<close> reading the time of the
  world (and possibly advancing it).
\<close>

definition call_pipeline ::
  "('sd, 'w) benchmark \<Rightarrow> string \<Rightarrow> 'w world \<Rightarrow> (error + unit) \<times> 'w world"
where
  "call_pipeline self query w =
     (case pipeline self query (ext w) of (r, x) \<Rightarrow> (r, w\<lparr>ext := x\<rparr>))"

definition call_perf_counter ::
  "('w \<Rightarrow> real \<times> 'w) option \<Rightarrow> 'w world \<Rightarrow> (error + real) \<times> 'w world"
where
  "call_perf_counter perf_counter w =
     (case perf_counter of
        None \<Rightarrow> (Inl NameError, w)
      | Some clock \<Rightarrow> (case clock (ext w) of (t, x) \<Rightarrow> (Inr t, w\<lparr>ext := x\<rparr>)))"

text \<open>
  \<^verbatim>\<open>
  for _ in range(10):
      _ = self.pipeline(query)
  \<close>
  with the number of rounds as the recursion argument.
\<close>

primrec warmup ::
  "nat \<Rightarrow> ('sd, 'w) benchmark \<Rightarrow> string \<Rightarrow> 'w world \<Rightarrow> (error + unit) \<times> 'w world"
where
  "warmup 0 self query w = (Inr (), w)"
| "warmup (Suc n) self query w =
     (case call_pipeline self query w of
        (Inl e, w1) \<Rightarrow> (Inl e, w1)
      | (Inr u, w1) \<Rightarrow> warmup n self query w1)"

text \<open>
  \<^verbatim>\<open>
  for _ in range(100):
      start_time = perf_counter()
      _ = self.pipeline(query)
      latency = perf_counter() - start_time
      latencies.append(latency)
  \<close>
\<close>

primrec timed_run ::
  "nat \<Rightarrow> ('w \<Rightarrow> real \<times> 'w) option \<Rightarrow> ('sd, 'w) benchmark \<Rightarrow> string \<Rightarrow> real list \<Rightarrow> 'w world
     \<Rightarrow> (error + real list) \<times> 'w world"
where
  "timed_run 0 perf_counter self query latencies w = (Inr latencies, w)"
| "timed_run (Suc n) perf_counter self query latencies w =
     (case call_perf_counter perf_counter w of
        (Inl e, w1) \<Rightarrow> (Inl e, w1)
      | (Inr start_time, w1) \<Rightarrow>
          (case call_pipeline self query w1 of
             (Inl e, w2) \<Rightarrow> (Inl e, w2)
           | (Inr u, w2) \<Rightarrow>
               (case call_perf_counter perf_counter w2 of
                  (Inl e, w3) \<Rightarrow> (Inl e, w3)
                | (Inr end_time, w3) \<Rightarrow>
                    (let latency = end_time - start_time
                     in timed_run n perf_counter self query (latencies @ [latency]) w3))))"

definition default_query :: string where
  "default_query = ''What is the pin number for my account?''"

text \<open>The value of the parameter \<open>query\<close>: the argument, or the default when omitted.\<close>

definition query_of :: "string option \<Rightarrow> string" where
  "query_of query_arg = (case query_arg of None \<Rightarrow> default_query | Some q \<Rightarrow> q)"

text \<open>
  \<^verbatim>\<open>
  def time_pipeline(self, query="What is the pin number for my account?"):
      latencies = []
      (warmup loop) (timed loop)
      time_avg_ms = 1000 * np.mean(latencies)
      time_std_ms = 1000 * np.std(latencies)
      print(f"Average latency (ms) - {time_avg_ms:.2f} +\- {time_std_ms:.2f}")
      return {"time_avg_ms": time_avg_ms, "time_std_ms": time_std_ms}
  \<close>
  An omitted \<open>query\<close> is \<open>None\<close>.
\<close>

definition time_pipeline ::
  "('w \<Rightarrow> real \<times> 'w) option \<Rightarrow> ('sd, 'w) benchmark \<Rightarrow> string option \<Rightarrow> 'w world
     \<Rightarrow> (error + (string \<rightharpoonup> scalar)) \<times> 'w world"
where
  "time_pipeline perf_counter self query_arg w =
     (let query = query_of query_arg
      in case warmup 10 self query w of
           (Inl e, w1) \<Rightarrow> (Inl e, w1)
         | (Inr u, w1) \<Rightarrow>
             (case timed_run 100 perf_counter self query [] w1 of
                (Inl e, w2) \<Rightarrow> (Inl e, w2)
              | (Inr latencies, w2) \<Rightarrow>
                  (let time_avg_ms = smul 1000 (np_mean latencies);
                       time_std_ms = smul 1000 (np_std latencies);
                       w3 = print (AverageLatency time_avg_ms time_std_ms) w2
                   in (Inr [''time_avg_ms'' \<mapsto> time_avg_ms, ''time_std_ms'' \<mapsto> time_std_ms],
                       w3))))"

text \<open>
  What it means that the pipeline was run and timed, said of the external calls
  themselves and not of the method. \<open>runs n run x x'\<close>: \<open>n\<close> successive executions of
  \<open>run\<close>, none of which raises, lead from \<open>x\<close> to \<open>x'\<close>. \<open>timed_rounds clock run x ticks x'\<close>:
  one round for each pair of \<open>ticks\<close> leads from \<open>x\<close> to \<open>x'\<close>, a round being a reading of
  the clock (the first of the pair), an execution of \<open>run\<close> that does not raise, and a
  second reading of the clock (the second of the pair).
\<close>

primrec runs :: "nat \<Rightarrow> ('w \<Rightarrow> (error + unit) \<times> 'w) \<Rightarrow> 'w \<Rightarrow> 'w \<Rightarrow> bool" where
  "runs 0 run x x' = (x' = x)"
| "runs (Suc n) run x x' =
     (case run x of
        (Inl e, x1) \<Rightarrow> False
      | (Inr u, x1) \<Rightarrow> runs n run x1 x')"

primrec timed_rounds ::
  "('w \<Rightarrow> real \<times> 'w) \<Rightarrow> ('w \<Rightarrow> (error + unit) \<times> 'w) \<Rightarrow> 'w \<Rightarrow> (real \<times> real) list \<Rightarrow> 'w \<Rightarrow> bool"
where
  "timed_rounds clock run x [] x' = (x' = x)"
| "timed_rounds clock run x (tick # ticks) x' =
     (case clock x of
        (s, x1) \<Rightarrow>
          s = fst tick \<and>
          (case run x1 of
             (Inl e, x2) \<Rightarrow> False
           | (Inr u, x2) \<Rightarrow>
               (case clock x2 of
                  (e, x3) \<Rightarrow> e = snd tick \<and> timed_rounds clock run x3 ticks x')))"

section \<open>The named-entity notebook: the token classification model\<close>

subsection \<open>Tensors\<close>

text \<open>
  A tensor of rank three is a list of lists of vectors: batch, then token position, then
  feature. The shape predicates are executable.
\<close>

type_synonym tensor3 = "real list list list"

definition has_shape2 :: "'a list list \<Rightarrow> nat \<Rightarrow> nat \<Rightarrow> bool" where
  "has_shape2 x B L = (length x = B \<and> list_all (\<lambda>row. length row = L) x)"

definition has_shape3 :: "'a list list list \<Rightarrow> nat \<Rightarrow> nat \<Rightarrow> nat \<Rightarrow> bool" where
  "has_shape3 x B L N =
     (length x = B \<and> list_all (\<lambda>row. length row = L \<and> list_all (\<lambda>v. length v = N) row) x)"

subsection \<open>Configuration and encoder body\<close>

text \<open>
  The configuration: the three fields the class reads, and two of the encoder's other
  hyperparameters, which only the body reads.
\<close>

record xlmr_config =
  num_labels :: nat
  hidden_dropout_prob :: real
  hidden_size :: nat
  vocab_size :: nat
  num_hidden_layers :: nat

text \<open>
  What the encoder body returns: a \<open>ModelOutput\<close> with named fields, or a plain tuple
  (when the caller passes \<open>return_dict=False\<close> through \<open>kwargs\<close>), of which only the
  first entry, the last layer's hidden states, is kept here.
\<close>

record base_output =
  last_hidden_state :: tensor3
  pooler_output :: "real list list option"
  enc_hidden_states :: "tensor3 list option"
  enc_attentions :: "real list list list list list option"

datatype body_output =
    ModelOutput base_output
  | TupleOutput tensor3

text \<open>\<open>outputs[0]\<close>: the hidden states of every token position.\<close>

fun first_output :: "body_output \<Rightarrow> tensor3" where
  "first_output (ModelOutput out) = last_hidden_state out"
| "first_output (TupleOutput h) = h"

fun is_model_output :: "body_output \<Rightarrow> bool" where
  "is_model_output (ModelOutput out) = True"
| "is_model_output (TupleOutput h) = False"

text \<open>
  The encoder body is an external collaborator, so it is a parameter: a function of the
  module's training flag, of the random seed its own dropout layers draw from, of
  \<open>input_ids\<close>, \<open>attention_mask\<close>, \<open>token_type_ids\<close> (each optional) and of the keyword
  arguments passed through.
\<close>

type_synonym 'kw encoder =
  "bool \<Rightarrow> nat \<Rightarrow> int list list option \<Rightarrow> int list list option \<Rightarrow> int list list option \<Rightarrow> 'kw
     \<Rightarrow> error + body_output"

subsection \<open>Library layers of the head\<close>

text \<open>
  The two layers of the head are PyTorch's, not code of the notebook. They are modelled
  from PyTorch's documentation, with the randomness of the dropout as an argument.

  \<open>nn.Dropout(p)\<close> keeps \<open>p\<close> and refuses a probability outside \<open>[0, 1]\<close>. Applied, it is
  the identity when \<open>p = 0\<close> or the module is not training; otherwise entry \<open>(b, t, j)\<close> is
  zeroed when the random mask \<open>keep b t j\<close> is false and scaled by \<open>1 / (1 - p)\<close> when it
  is true (with \<open>p = 1\<close> every entry is zeroed).
\<close>

definition nn_Dropout :: "real \<Rightarrow> error + real" where
  "nn_Dropout p = (if p < 0 \<or> 1 < p then Inl ValueError else Inr p)"

definition map_indexed :: "(nat \<Rightarrow> 'a \<Rightarrow> 'b) \<Rightarrow> 'a list \<Rightarrow> 'b list" where
  "map_indexed f xs = map (\<lambda>(i, a). f i a) (enumerate 0 xs)"

definition dropout_apply :: "real \<Rightarrow> bool \<Rightarrow> (nat \<Rightarrow> nat \<Rightarrow> nat \<Rightarrow> bool) \<Rightarrow> tensor3 \<Rightarrow> tensor3" where
  "dropout_apply p train keep x =
     (if p = 0 \<or> \<not> train then x
      else map_indexed (\<lambda>b. map_indexed (\<lambda>t. map_indexed (\<lambda>j a.
             if p = 1 then 0 else if keep b t j then a / (1 - p) else 0))) x)"

text \<open>
  \<open>nn.Linear(in_features, out_features)\<close>: a weight matrix with one row per output
  feature and a bias vector. Applied to a tensor it maps every vector \<open>v\<close> to
  \<open>W v + b\<close>, and raises when a vector's length is not \<open>in_features\<close>.
\<close>

record linear =
  in_features :: nat
  out_features :: nat
  weight :: "real list list"
  bias :: "real list"

definition nn_Linear :: "nat \<Rightarrow> nat \<Rightarrow> linear" where
  "nn_Linear n_in n_out =
     \<lparr>in_features = n_in, out_features = n_out,
      weight = replicate n_out (replicate n_in 0), bias = replicate n_out 0\<rparr>"

definition dot :: "real list \<Rightarrow> real list \<Rightarrow> real" where
  "dot w v = sum_list (map2 (*) w v)"

definition linear_vec :: "linear \<Rightarrow> real list \<Rightarrow> real list" where
  "linear_vec l v = map (\<lambda>(w, b). dot w v + b) (zip (weight l) (bias l))"

definition linear_apply :: "linear \<Rightarrow> tensor3 \<Rightarrow> error + tensor3" where
  "linear_apply l x =
     (if list_ex (list_ex (\<lambda>v. length v \<noteq> in_features l)) x then Inl RuntimeError
      else Inr (map (map (linear_vec l)) x))"

subsection \<open>Library calls of the loss\<close>

text \<open>
  \<open>view\<close> and \<open>nn.CrossEntropyLoss\<close> are PyTorch's as well, modelled from its
  documentation (on the CPU, where an invalid target raises).

  \<open>x.view(-1, n)\<close> of a rank-three tensor: its entries in order, cut into rows of \<open>n\<close>.
  It raises when \<open>n = 0\<close> or when the number of entries is not a multiple of \<open>n\<close>.
  \<open>labels.view(-1)\<close> of a rank-two tensor is \<open>concat\<close>.
\<close>

fun chunks :: "nat \<Rightarrow> 'a list \<Rightarrow> 'a list list" where
  "chunks n xs = (if n = 0 \<or> xs = [] then [] else take n xs # chunks n (drop n xs))"

definition view_rows :: "nat \<Rightarrow> tensor3 \<Rightarrow> error + real list list" where
  "view_rows n x =
     (let flat = concat (concat x)
      in if n = 0 \<or> length flat mod n \<noteq> 0 then Inl RuntimeError else Inr (chunks n flat))"

text \<open>
  \<open>nn.CrossEntropyLoss()\<close> with its defaults: \<open>ignore_index = -100\<close> and the mean as
  reduction. For rows of logits \<open>input\<close> and one target per row:
  \<^item> a different number of rows and targets raises \<open>ValueError\<close>;
  \<^item> a target that is not the ignore index and not a class index raises \<open>IndexError\<close>;
  \<^item> the result is the mean, over the rows whose target is not the ignore index, of
    minus the log-softmax of the row at its target; with no such row it is \<open>nan\<close>.
\<close>

definition ignore_index :: int where
  "ignore_index = - 100"

definition log_softmax_at :: "real list \<Rightarrow> nat \<Rightarrow> real" where
  "log_softmax_at x c = x ! c - ln (sum_list (map exp x))"

definition nll :: "real list \<times> int \<Rightarrow> real" where
  "nll = (\<lambda>(x, y). - log_softmax_at x (nat y))"

definition active :: "real list list \<Rightarrow> int list \<Rightarrow> (real list \<times> int) list" where
  "active input target = filter (\<lambda>(x, y). y \<noteq> ignore_index) (zip input target)"

definition cross_entropy :: "real list list \<Rightarrow> int list \<Rightarrow> error + scalar" where
  "cross_entropy input target =
     (if length input \<noteq> length target then Inl ValueError
      else if list_ex (\<lambda>(x, y). y < 0 \<or> int (length x) \<le> y) (active input target)
        then Inl IndexError
      else if active input target = [] then Inr NaN
      else Inr (Finite (sum_list (map nll (active input target))
                        / real (length (active input target)))))"

subsection \<open>\<open>XLMRobertaForTokenClassification\<close>\<close>

text \<open>
  The module: the configuration it was built from, \<open>self.num_labels\<close> (here
  \<open>n_labels\<close>), the body \<open>self.roberta\<close>, the probability of \<open>self.dropout\<close>, the layer
  \<open>self.classifier\<close>, and the training flag every \<open>nn.Module\<close> has.
\<close>

record 'kw model =
  config :: xlmr_config
  n_labels :: nat
  roberta :: "'kw encoder"
  dropout :: real
  classifier :: linear
  training :: bool

text \<open>
  \<open>init_weights()\<close> draws the head's weight matrix at random (here from the parameter
  \<open>sample\<close>) and zeroes its bias; the body's weights are part of the encoder the
  constructor \<open>RobertaModel\<close> returns.
\<close>

definition init_weights :: "(nat \<Rightarrow> nat \<Rightarrow> real) \<Rightarrow> 'kw model \<Rightarrow> 'kw model" where
  "init_weights sample self =
     self\<lparr>classifier := (classifier self)
       \<lparr>weight := map (\<lambda>k. map (sample k) [0..<in_features (classifier self)])
                    [0..<out_features (classifier self)],
        bias := replicate (out_features (classifier self)) 0\<rparr>\<rparr>"

text \<open>
  \<^verbatim>\<open>
  def __init__(self, config):
      super().__init__(config)
      self.num_labels = config.num_labels
      self.roberta = RobertaModel(config, add_pooling_layer=False)
      self.dropout = nn.Dropout(config.hidden_dropout_prob)
      self.classifier = nn.Linear(config.hidden_size, config.num_labels)
      self.init_weights()
  \<close>
  \<open>RobertaModel\<close>, the constructor of the body, is a parameter; its second argument is
  \<open>add_pooling_layer\<close>. \<open>super().__init__(config)\<close> stores the configuration and sets
  the training flag. The source has no assignment to the configuration, and the
  library calls are taken to make none.
\<close>

definition init ::
  "(xlmr_config \<Rightarrow> bool \<Rightarrow> error + 'kw encoder) \<Rightarrow> (nat \<Rightarrow> nat \<Rightarrow> real) \<Rightarrow> xlmr_config
     \<Rightarrow> error + 'kw model"
where
  "init RobertaModel sample cfg =
     (case RobertaModel cfg False of
        Inl e \<Rightarrow> Inl e
      | Inr body \<Rightarrow>
          (case nn_Dropout (hidden_dropout_prob cfg) of
             Inl e \<Rightarrow> Inl e
           | Inr p \<Rightarrow>
               Inr (init_weights sample
                      \<lparr>config = cfg, n_labels = num_labels cfg, roberta = body, dropout = p,
                       classifier = nn_Linear (hidden_size cfg) (num_labels cfg),
                       training = True\<rparr>)))"

record token_classifier_output =
  loss :: "scalar option"
  logits :: tensor3
  hidden_states :: "tensor3 list option"
  attentions :: "real list list list list list option"

text \<open>
  \<^verbatim>\<open>
  loss = None
  if labels is not None:
      loss_fct = nn.CrossEntropyLoss()
      loss = loss_fct(logits.view(-1, self.num_labels), labels.view(-1))
  \<close>
\<close>

definition token_loss :: "nat \<Rightarrow> tensor3 \<Rightarrow> int list list option \<Rightarrow> error + scalar option" where
  "token_loss n lg labels =
     (case labels of
        None \<Rightarrow> Inr None
      | Some ls \<Rightarrow>
          (case view_rows n lg of
             Inl e \<Rightarrow> Inl e
           | Inr rows \<Rightarrow>
               (case cross_entropy rows (concat ls) of
                  Inl e \<Rightarrow> Inl e
                | Inr l \<Rightarrow> Inr (Some l))))"

text \<open>
  \<^verbatim>\<open>
  def forward(self, input_ids=None, attention_mask=None, token_type_ids=None,
              labels=None, **kwargs):
      outputs = self.roberta(input_ids, attention_mask=attention_mask,
                             token_type_ids=token_type_ids, **kwargs)
      sequence_output = self.dropout(outputs[0])
      logits = self.classifier(sequence_output)
      (the loss, as above)
      return TokenClassifierOutput(loss=loss, logits=logits,
                                   hidden_states=outputs.hidden_states,
                                   attentions=outputs.attentions)
  \<close>
  The two sources of randomness are arguments: \<open>seed\<close> for the body, the mask \<open>keep\<close>
  for the head's dropout. A plain tuple has no attribute \<open>hidden_states\<close>, so the last
  statement raises on it. The method assigns to no attribute of \<open>self\<close>: it returns the
  output record and nothing else.
\<close>

definition forward ::
  "'kw model \<Rightarrow> nat \<Rightarrow> (nat \<Rightarrow> nat \<Rightarrow> nat \<Rightarrow> bool) \<Rightarrow> int list list option \<Rightarrow> int list list option
     \<Rightarrow> int list list option \<Rightarrow> int list list option \<Rightarrow> 'kw \<Rightarrow> error + token_classifier_output"
where
  "forward self seed keep input_ids attention_mask token_type_ids labels kwargs =
     (case roberta self (training self) seed input_ids attention_mask token_type_ids kwargs of
        Inl e \<Rightarrow> Inl e
      | Inr outputs \<Rightarrow>
          (let sequence_output =
                 dropout_apply (dropout self) (training self) keep (first_output outputs)
           in case linear_apply (classifier self) sequence_output of
                Inl e \<Rightarrow> Inl e
              | Inr lg \<Rightarrow>
                  (case token_loss (n_labels self) lg labels of
                     Inl e \<Rightarrow> Inl e
                   | Inr l \<Rightarrow>
                       (case outputs of
                          TupleOutput h \<Rightarrow> Inl AttributeError
                        | ModelOutput out \<Rightarrow>
                            Inr \<lparr>loss = l, logits = lg,
                                 hidden_states = enc_hidden_states out,
                                 attentions = enc_attentions out\<rparr>))))"

text \<open>
  The head as the constructor leaves it and as gradient updates keep it: the classifier
  has \<open>self.num_labels\<close> output features, with a weight row and a bias entry for each,
  and every weight row has \<open>in_features\<close> entries.
\<close>

definition head_consistent :: "'kw model \<Rightarrow> bool" where
  "head_consistent self =
     (out_features (classifier self) = n_labels self \<and>
      length (weight (classifier self)) = n_labels self \<and>
      length (bias (classifier self)) = n_labels self \<and>
      list_all (\<lambda>w. length w = in_features (classifier self)) (weight (classifier self)))"


section \<open>Worked inputs\<close>

text \<open>
  Concrete inputs on which the theorems below are instantiated. For the benchmark: a
  pipeline that takes three ticks of a millisecond clock and never raises, a clock that
  reads the time in seconds and takes one tick, a state dictionary that serialises to
  two mebibytes, and five working directories: one without \<open>model.pt\<close>, one where it is
  a regular file, one where it is a second name of the file \<open>other.bin\<close>, one where it
  is a symbolic link to the file \<open>weights.bin\<close>, and one where it is a directory.
\<close>

definition ex_benchmark :: "(unit, nat) benchmark" where
  "ex_benchmark = \<lparr>state_dict = (), pipeline = (\<lambda>q x. (Inr (), x + 3))\<rparr>"

definition ex_clock :: "nat \<Rightarrow> real \<times> nat" where
  "ex_clock x = (real x / 1000, x + 1)"

definition ex_serialise :: "unit \<Rightarrow> error + bytes" where
  "ex_serialise sd = Inr (replicate 2097152 0)"

definition ex_world :: "nat world" where
  "ex_world =
     \<lparr>entries = [(''config.json'', File 1)], contents = [(1, [1, 2, 3])], read_only = False,
      stdout = [], ext = 0\<rparr>"

definition ex_world_with_model :: "nat world" where
  "ex_world_with_model =
     \<lparr>entries = [(''model.pt'', File 1)], contents = [(1, [1, 2, 3])], read_only = False,
      stdout = [], ext = 0\<rparr>"

definition ex_world_with_link :: "nat world" where
  "ex_world_with_link =
     \<lparr>entries = [(''other.bin'', File 1), (''model.pt'', File 1)], contents = [(1, [1, 2, 3])],
      read_only = False, stdout = [], ext = 0\<rparr>"

definition ex_world_with_symlink :: "nat world" where
  "ex_world_with_symlink =
     \<lparr>entries = [(''weights.bin'', File 1), (''model.pt'', Symlink ''weights.bin'')],
      contents = [(1, [1, 2, 3])], read_only = False, stdout = [], ext = 0\<rparr>"

definition ex_world_with_directory :: "nat world" where
  "ex_world_with_directory =
     \<lparr>entries = [(''model.pt'', Directory 4096)], contents = [], read_only = False,
      stdout = [], ext = 0\<rparr>"

text \<open>
  For the token classifier: a body with hidden size 1 whose hidden state is 0 for the
  token 101 and 1 for every other token, a configuration with seven labels, and the
  model the constructor builds from them when the sampled weight of classes 3 and 5 is
  1 and every other weight is 0; \<open>ex_eval\<close> is that model in inference mode.
\<close>

definition ex_body :: "unit encoder" where
  "ex_body train seed input_ids attention_mask token_type_ids kwargs =
     (case input_ids of
        None \<Rightarrow> Inl ValueError
      | Some ids \<Rightarrow>
          Inr (ModelOutput
                 \<lparr>last_hidden_state = map (map (\<lambda>i. [if i = 101 then 0 else 1])) ids,
                  pooler_output = None, enc_hidden_states = None, enc_attentions = None\<rparr>))"

definition ex_RobertaModel :: "xlmr_config \<Rightarrow> bool \<Rightarrow> error + unit encoder" where
  "ex_RobertaModel cfg add_pooling_layer = Inr ex_body"

definition ex_sample :: "nat \<Rightarrow> nat \<Rightarrow> real" where
  "ex_sample k j = (if k = 3 \<or> k = 5 then 1 else 0)"

definition ex_config :: xlmr_config where
  "ex_config =
     \<lparr>num_labels = 7, hidden_dropout_prob = 1 / 10, hidden_size = 1,
      vocab_size = 250002, num_hidden_layers = 12\<rparr>"

definition ex_classifier :: linear where
  "ex_classifier =
     \<lparr>in_features = 1, out_features = 7,
      weight = [[0], [0], [0], [1], [0], [1], [0]], bias = [0, 0, 0, 0, 0, 0, 0]\<rparr>"

definition ex_model :: "unit model" where
  "ex_model =
     \<lparr>config = ex_config, n_labels = 7, roberta = ex_body, dropout = 1 / 10,
      classifier = ex_classifier, training = True\<rparr>"

definition ex_eval :: "unit model" where
  "ex_eval = ex_model\<lparr>training := False\<rparr>"

definition ex_ids :: "int list list" where
  "ex_ids = [[101, 2045, 2003, 102]]"

definition ex_mask :: "int list list" where
  "ex_mask = [[1, 1, 1, 1]]"

definition ex_base :: base_output where
  "ex_base =
     \<lparr>last_hidden_state = [[[0], [1], [1], [1]]],
      pooler_output = None, enc_hidden_states = None, enc_attentions = None\<rparr>"

definition ex_logits :: tensor3 where
  "ex_logits =
     [[[0, 0, 0, 0, 0, 0, 0], [0, 0, 0, 1, 0, 1, 0], [0, 0, 0, 1, 0, 1, 0],
       [0, 0, 0, 1, 0, 1, 0]]]"

text \<open>
  The logits of the worked input in training mode when the mask keeps every entry
  (each hidden state is scaled by \<open>1 / (1 - 1/10)\<close>), the model with the dropout
  probability set to 0, the gold labels of the worked scenario and the loss they give,
  and a second input that differs from the first at the two ignored positions only.
\<close>

definition ex_logits_train :: tensor3 where
  "ex_logits_train =
     [[[0, 0, 0, 0, 0, 0, 0], [0, 0, 0, 10 / 9, 0, 10 / 9, 0], [0, 0, 0, 10 / 9, 0, 10 / 9, 0],
       [0, 0, 0, 10 / 9, 0, 10 / 9, 0]]]"

definition ex_p0 :: "unit model" where
  "ex_p0 = ex_model\<lparr>dropout := 0\<rparr>"

definition ex_labels :: "int list list" where
  "ex_labels = [[- 100, 3, 5, - 100]]"

definition ex_loss :: real where
  "ex_loss = ln (5 + 2 * exp 1) - 1"

definition ex_ids_other :: "int list list" where
  "ex_ids_other = [[2045, 2045, 2003, 101]]"

definition ex_base_other :: base_output where
  "ex_base_other =
     \<lparr>last_hidden_state = [[[1], [1], [1], [0]]],
      pooler_output = None, enc_hidden_states = None, enc_attentions = None\<rparr>"

definition ex_logits_other :: tensor3 where
  "ex_logits_other =
     [[[0, 0, 0, 1, 0, 1, 0], [0, 0, 0, 1, 0, 1, 0], [0, 0, 0, 1, 0, 1, 0],
       [0, 0, 0, 0, 0, 0, 0]]]"

text \<open>Two dropout masks: one keeps every entry, one drops every entry.\<close>

definition ex_keep :: "nat \<Rightarrow> nat \<Rightarrow> nat \<Rightarrow> bool" where
  "ex_keep b t j = True"

definition ex_drop :: "nat \<Rightarrow> nat \<Rightarrow> nat \<Rightarrow> bool" where
  "ex_drop b t j = False"








section \<open>The benchmark: proofs\<close>

subsection \<open>The working directory\<close>

text \<open>
  A path ends at a name bound to what \<open>resolve\<close> reports, and a name bound to no
  symbolic link is where its own path ends.
\<close>

lemma resolve_Inr:
  "resolve fuel es path = Inr (name, r) \<Longrightarrow> map_of es name = r"
proof (induction fuel arbitrary: path)
  case 0
  then show ?case by (auto split: option.splits entry.splits)
next
  case (Suc fuel)
  then show ?case by (auto split: option.splits entry.splits)
qed

lemma resolve_not_Symlink:
  "resolve fuel es path \<noteq> Inr (name, Some (Symlink target))"
proof (induction fuel arbitrary: path)
  case 0
  then show ?case by (auto split: option.splits entry.splits)
next
  case (Suc fuel)
  then show ?case by (auto split: option.splits entry.splits)
qed

lemma resolve_absent:
  "map_of es path = None \<Longrightarrow> resolve fuel es path = Inr (path, None)"
  by (cases fuel) simp_all

lemma resolve_File:
  "map_of es path = Some (File i) \<Longrightarrow> resolve fuel es path = Inr (path, Some (File i))"
  by (cases fuel) simp_all

lemma resolve_Directory:
  "map_of es path = Some (Directory n) \<Longrightarrow> resolve fuel es path = Inr (path, Some (Directory n))"
  by (cases fuel) simp_all

text \<open>
  Creating the file a path ends at does not change the way there: the path then ends at
  the new file.
\<close>

lemma resolve_update:
  "resolve fuel es path = Inr (name, None) \<Longrightarrow>
     resolve fuel (AList.update name (File i) es) path = Inr (name, Some (File i))"
proof (induction fuel arbitrary: path)
  case 0
  then show ?case by (auto simp: update_conv' split: option.splits entry.splits)
next
  case (Suc fuel)
  show ?case
  proof (cases "map_of es path")
    case None
    with Suc.prems show ?thesis by (auto simp: update_conv')
  next
    case (Some e)
    show ?thesis
    proof (cases e)
      case (Symlink target)
      with Some Suc.prems have r: "resolve fuel es target = Inr (name, None)" by simp
      from resolve_Inr [OF r] Some have "path \<noteq> name" by auto
      with Some Symlink Suc.IH [OF r] show ?thesis by (simp add: update_conv')
    next
      case (File j)
      with Some Suc.prems show ?thesis by simp
    next
      case (Directory n)
      with Some Suc.prems show ?thesis by simp
    qed
  qed
qed

text \<open>The number of a new file is in use nowhere.\<close>

lemma le_foldr_max:
  "x \<in> set xs \<Longrightarrow> x \<le> foldr max xs (0 :: nat)"
  by (induction xs) (auto simp: max_def)

lemma fresh_inode_contents:
  "fresh_inode w \<notin> fst ` set (contents w)"
proof
  assume "fresh_inode w \<in> fst ` set (contents w)"
  then have "fresh_inode w \<in> set (map fst (contents w) @ inodes_of (entries w))" by simp
  from le_foldr_max [OF this] show False by (simp add: fresh_inode_def)
qed

lemma fresh_inode_entries:
  "fresh_inode w \<notin> set (inodes_of (entries w))"
proof
  assume "fresh_inode w \<in> set (inodes_of (entries w))"
  then have "fresh_inode w \<in> set (map fst (contents w) @ inodes_of (entries w))" by simp
  from le_foldr_max [OF this] show False by (simp add: fresh_inode_def)
qed

lemma delete_update_absent:
  "map_of al k = None \<Longrightarrow> AList.delete k (AList.update k v al) = al"
  by (simp add: delete_update_same map_of_eq_None_iff)

lemma delete_update_fresh:
  "k \<notin> fst ` set al \<Longrightarrow> AList.delete k (AList.update k v al) = al"
  by (simp add: delete_update_same)

subsection \<open>The library calls, case by case\<close>

text \<open>
  A call of \<open>torch.save\<close> that returns has written the serialised object to the file the
  path ends at, an existing one or a new one; nothing else is changed.
\<close>

lemma torch_save_Inr:
  assumes "torch_save serialise obj path w = (Inr u, w1)"
  shows "\<exists>bs name i.
           serialise obj = Inr bs \<and>
           resolve 40 (entries w1) path = Inr (name, Some (File i)) \<and>
           content_of w1 i = bs \<and>
           \<not> read_only w1 \<and> stdout w1 = stdout w \<and> ext w1 = ext w \<and>
           (map_of (entries w) path = None \<longrightarrow>
              w1 = w\<lparr>entries := AList.update path (File (fresh_inode w)) (entries w),
                     contents := AList.update (fresh_inode w) bs (contents w)\<rparr>)"
proof -
  from assms have ro: "\<not> read_only w"
    by (auto simp: torch_save_def split: if_splits)
  from assms ro obtain name r where res: "resolve 40 (entries w) path = Inr (name, r)"
    by (cases "resolve 40 (entries w) path") (auto simp: torch_save_def)
  show ?thesis
  proof (cases r)
    case None
    let ?w = "w\<lparr>entries := AList.update name (File (fresh_inode w)) (entries w)\<rparr>"
    from assms ro res None have wf: "write_file serialise obj (fresh_inode w) ?w = (Inr u, w1)"
      by (simp add: torch_save_def)
    then obtain bs where bs: "serialise obj = Inr bs"
      and w1: "w1 = ?w\<lparr>contents := AList.update (fresh_inode w) bs (contents w)\<rparr>"
      by (auto simp: write_file_def split: sum.splits)
    from res None have "resolve 40 (entries w1) path = Inr (name, Some (File (fresh_inode w)))"
      unfolding w1 by (simp add: resolve_update)
    moreover have "content_of w1 (fresh_inode w) = bs"
      unfolding w1 by (simp add: content_of_def update_conv')
    moreover have "map_of (entries w) path = None \<longrightarrow>
        w1 = w\<lparr>entries := AList.update path (File (fresh_inode w)) (entries w),
               contents := AList.update (fresh_inode w) bs (contents w)\<rparr>"
    proof
      assume "map_of (entries w) path = None"
      from resolve_absent [OF this, of 40] res have "name = path" by simp
      with w1 show "w1 = w\<lparr>entries := AList.update path (File (fresh_inode w)) (entries w),
               contents := AList.update (fresh_inode w) bs (contents w)\<rparr>" by simp
    qed
    ultimately show ?thesis using bs ro w1 by auto
  next
    case (Some e)
    show ?thesis
    proof (cases e)
      case (File i)
      from assms ro res Some File have wf: "write_file serialise obj i w = (Inr u, w1)"
        by (simp add: torch_save_def)
      then obtain bs where bs: "serialise obj = Inr bs"
        and w1: "w1 = w\<lparr>contents := AList.update i bs (contents w)\<rparr>"
        by (auto simp: write_file_def split: sum.splits)
      from res Some File have "resolve 40 (entries w1) path = Inr (name, Some (File i))"
        unfolding w1 by simp
      moreover have "content_of w1 i = bs"
        unfolding w1 by (simp add: content_of_def update_conv')
      moreover have "map_of (entries w) path \<noteq> None"
      proof
        assume "map_of (entries w) path = None"
        from resolve_absent [OF this, of 40] res Some show False by simp
      qed
      ultimately show ?thesis using bs ro w1 by auto
    next
      case (Symlink target)
      with assms ro res Some show ?thesis by (simp add: torch_save_def)
    next
      case (Directory n)
      with assms ro res Some show ?thesis by (simp add: torch_save_def)
    qed
  qed
qed

lemma unlink_Inr:
  assumes "unlink path w = (Inr u, w2)"
  shows "map_of (entries w2) path = None \<and> entries w2 = AList.delete path (entries w) \<and>
         stdout w2 = stdout w \<and> ext w2 = ext w \<and> read_only w2 = read_only w"
  using assms
  by (auto simp: unlink_def Let_def delete_conv' split: if_splits option.splits entry.splits)

subsection \<open>\<open>compute_size\<close>\<close>

text \<open>What a call that returns has done, step by step.\<close>

lemma compute_size_Inr:
  assumes "compute_size serialise self w = (Inr res, w')"
  shows "\<exists>bs u w1 w2.
           torch_save serialise (state_dict self) ''model.pt'' w = (Inr u, w1) \<and>
           serialise (state_dict self) = Inr bs \<and>
           st_size ''model.pt'' w1 = Inr (length bs) \<and>
           unlink ''model.pt'' w1 = (Inr u, w2) \<and>
           res = [''size_mb'' \<mapsto> Finite (real (length bs) / (1024 * 1024))] \<and>
           w' = print (ModelSize (Finite (real (length bs) / (1024 * 1024)))) w2"
proof -
  from assms obtain u w1 where
    s: "torch_save serialise (state_dict self) ''model.pt'' w = (Inr u, w1)"
    by (auto simp: compute_size_def Let_def split: prod.splits sum.splits)
  from torch_save_Inr [OF s] obtain bs name i where
    bs: "serialise (state_dict self) = Inr bs" and
    r: "resolve 40 (entries w1) ''model.pt'' = Inr (name, Some (File i))" and
    c: "content_of w1 i = bs"
    by blast
  from r c have st: "st_size ''model.pt'' w1 = Inr (length bs)"
    by (simp add: st_size_def)
  from assms s st obtain w2 where
    ul: "unlink ''model.pt'' w1 = (Inr u, w2)"
    by (auto simp: compute_size_def Let_def split: prod.splits sum.splits)
  from assms s st ul have
    "res = [''size_mb'' \<mapsto> Finite (real (length bs) / (1024 * 1024))]"
    "w' = print (ModelSize (Finite (real (length bs) / (1024 * 1024)))) w2"
    by (simp_all add: compute_size_def Let_def)
  with s bs st ul show ?thesis by blast
qed

text \<open>
  Where no entry is named \<open>model.pt\<close>, the directory is writable and the state dictionary
  can be serialised, the method returns, and all it leaves is the printed line.
\<close>

lemma compute_size_absent:
  assumes absent: "map_of (entries w) ''model.pt'' = None"
    and rw: "\<not> read_only w"
    and bs: "serialise (state_dict self) = Inr bs"
  shows "compute_size serialise self w =
           (Inr [''size_mb'' \<mapsto> Finite (real (length bs) / (1024 * 1024))],
            print (ModelSize (Finite (real (length bs) / (1024 * 1024)))) w)"
proof -
  let ?i = "fresh_inode w"
  let ?w1 = "w\<lparr>entries := AList.update ''model.pt'' (File ?i) (entries w),
               contents := AList.update ?i bs (contents w)\<rparr>"
  have s: "torch_save serialise (state_dict self) ''model.pt'' w = (Inr (), ?w1)"
    using absent rw bs by (simp add: torch_save_def resolve_absent write_file_def)
  have m: "map_of (entries ?w1) ''model.pt'' = Some (File ?i)"
    by (simp add: update_conv')
  have r: "resolve 40 (AList.update ''model.pt'' (File ?i) (entries w)) ''model.pt''
             = Inr (''model.pt'', Some (File ?i))"
    by (rule resolve_File) (simp add: update_conv')
  have st: "st_size ''model.pt'' ?w1 = Inr (length bs)"
    by (simp add: st_size_def r content_of_def update_conv')
  have d: "AList.delete ''model.pt'' (entries ?w1) = entries w"
    using absent by (simp add: delete_update_absent)
  have ul: "unlink ''model.pt'' ?w1 = (Inr (), w)"
    using rw m d fresh_inode_entries [of w] fresh_inode_contents [of w]
    by (simp add: unlink_def Let_def delete_update_fresh)
  show ?thesis
    by (simp add: compute_size_def Let_def s st ul)
qed

text \<open>
  Where \<open>model.pt\<close> is a directory, or the file system is read-only, \<open>torch.save\<close> raises
  and nothing is done.
\<close>

lemma compute_size_directory:
  assumes "map_of (entries w) ''model.pt'' = Some (Directory n)"
  shows "compute_size serialise self w
           = (Inl (if read_only w then OSError else IsADirectoryError), w)"
  using assms by (simp add: compute_size_def torch_save_def resolve_Directory)

lemma compute_size_read_only:
  assumes "read_only w"
  shows "compute_size serialise self w = (Inl OSError, w)"
  using assms by (simp add: compute_size_def torch_save_def)

text \<open>
  Where \<open>torch.save\<close> raises while writing, the method raises and leaves the file it has
  opened: the deletion is not reached.
\<close>

lemma compute_size_save_fails:
  assumes "map_of (entries w) ''model.pt'' = None" and "\<not> read_only w"
    and "serialise (state_dict self) = Inl e"
  shows "compute_size serialise self w =
           (Inl e, w\<lparr>entries := AList.update ''model.pt'' (File (fresh_inode w)) (entries w),
                     contents := AList.update (fresh_inode w) [] (contents w)\<rparr>)"
  using assms by (simp add: compute_size_def torch_save_def resolve_absent write_file_def)

text \<open>
  Claim C10, as the code has it. An invocation of \<open>compute_size\<close> that returns has
  removed the name \<open>model.pt\<close> from the working directory. It returns a dictionary with
  the single key \<open>size_mb\<close>, whose value is the number of bytes of the serialised state
  dictionary, which is the size of the file written, divided by \<open>1024 * 1024\<close>, and it
  has printed that value. Where no entry was named \<open>model.pt\<close> before the call, the
  printed line is all that has changed: names, links and the contents of all files are
  as before (time stamps are not part of the world here). In such a directory the
  method does return if the file system is writable and the state dictionary can be
  serialised. Where \<open>model.pt\<close> is a directory, or the file system is read-only, the
  method raises and nothing is changed.
\<close>

theorem compute_size_removes_tmp_file:
  "(compute_size serialise self w = (Inr res, w') \<longrightarrow>
      map_of (entries w') ''model.pt'' = None \<and>
      (\<exists>bs. serialise (state_dict self) = Inr bs \<and>
            res = [''size_mb'' \<mapsto> Finite (real (length bs) / (1024 * 1024))]) \<and>
      dom res = {''size_mb''} \<and>
      stdout w' = stdout w @ [ModelSize (the (res ''size_mb''))] \<and>
      ext w' = ext w \<and>
      (map_of (entries w) ''model.pt'' = None \<longrightarrow>
         w' = w\<lparr>stdout := stdout w @ [ModelSize (the (res ''size_mb''))]\<rparr>)) \<and>
   (map_of (entries w) ''model.pt'' = None \<and> \<not> read_only w \<and>
      (\<exists>bs. serialise (state_dict self) = Inr bs) \<longrightarrow>
      (\<exists>res w'. compute_size serialise self w = (Inr res, w'))) \<and>
   (map_of (entries w) ''model.pt'' = Some (Directory n) \<and> \<not> read_only w \<longrightarrow>
      compute_size serialise self w = (Inl IsADirectoryError, w)) \<and>
   (read_only w \<longrightarrow> compute_size serialise self w = (Inl OSError, w))"
proof (intro conjI impI)
  assume r: "compute_size serialise self w = (Inr res, w')"
  from compute_size_Inr [OF r] obtain bs u w1 w2 where
    s: "torch_save serialise (state_dict self) ''model.pt'' w = (Inr u, w1)" and
    bs: "serialise (state_dict self) = Inr bs" and
    ul: "unlink ''model.pt'' w1 = (Inr u, w2)" and
    res: "res = [''size_mb'' \<mapsto> Finite (real (length bs) / (1024 * 1024))]" and
    w': "w' = print (ModelSize (Finite (real (length bs) / (1024 * 1024)))) w2"
    by blast
  from torch_save_Inr [OF s] have w1: "stdout w1 = stdout w" "ext w1 = ext w" by auto
  from unlink_Inr [OF ul] have w2:
    "map_of (entries w2) ''model.pt'' = None" "stdout w2 = stdout w1" "ext w2 = ext w1"
    by auto
  from w2(1) w' show "map_of (entries w') ''model.pt'' = None"
    by (simp add: print_def)
  from bs res show "\<exists>bs. serialise (state_dict self) = Inr bs \<and>
      res = [''size_mb'' \<mapsto> Finite (real (length bs) / (1024 * 1024))]"
    by blast
  from res show "dom res = {''size_mb''}" by simp
  from w' w1 w2 res show "stdout w' = stdout w @ [ModelSize (the (res ''size_mb''))]"
    by (simp add: print_def)
  from w' w1 w2 show "ext w' = ext w" by (simp add: print_def)
  show "w' = w\<lparr>stdout := stdout w @ [ModelSize (the (res ''size_mb''))]\<rparr>"
    if absent: "map_of (entries w) ''model.pt'' = None"
  proof -
    from s have rw: "\<not> read_only w" by (auto simp: torch_save_def split: if_splits)
    from compute_size_absent [where serialise = serialise and self = self, OF absent rw bs]
      r res
    show ?thesis
      by (simp add: print_def)
  qed
next
  assume "map_of (entries w) ''model.pt'' = None \<and> \<not> read_only w \<and>
      (\<exists>bs. serialise (state_dict self) = Inr bs)"
  then obtain bs where a: "map_of (entries w) ''model.pt'' = None" "\<not> read_only w"
    "serialise (state_dict self) = Inr bs" by blast
  from compute_size_absent [where serialise = serialise and self = self, OF a]
  show "\<exists>res w'. compute_size serialise self w = (Inr res, w')" by blast
next
  assume "map_of (entries w) ''model.pt'' = Some (Directory n) \<and> \<not> read_only w"
  then show "compute_size serialise self w = (Inl IsADirectoryError, w)"
    by (simp add: compute_size_directory)
next
  assume "read_only w"
  then show "compute_size serialise self w = (Inl OSError, w)"
    by (rule compute_size_read_only)
qed

text \<open>
  The theorem at a working directory without \<open>model.pt\<close>: the method returns, two
  mebibytes are measured and the directory is as before; and at a working directory
  where \<open>model.pt\<close> is a directory: the method raises.
\<close>

theorem compute_size_removes_tmp_file_witness:
  "map_of (entries ex_world) ''model.pt'' = None \<and> \<not> read_only ex_world \<and>
   ex_serialise (state_dict ex_benchmark) = Inr (replicate 2097152 0) \<and>
   compute_size ex_serialise ex_benchmark ex_world =
     (Inr [''size_mb'' \<mapsto> Finite 2], ex_world\<lparr>stdout := [ModelSize (Finite 2)]\<rparr>) \<and>
   map_of (entries ex_world_with_directory) ''model.pt'' = Some (Directory 4096) \<and>
   \<not> read_only ex_world_with_directory \<and>
   compute_size ex_serialise ex_benchmark ex_world_with_directory =
     (Inl IsADirectoryError, ex_world_with_directory)"
proof -
  have h: "map_of (entries ex_world) ''model.pt'' = None" "\<not> read_only ex_world"
    "ex_serialise (state_dict ex_benchmark) = Inr (replicate 2097152 0)"
    by (simp_all add: ex_world_def ex_serialise_def)
  have d: "map_of (entries ex_world_with_directory) ''model.pt'' = Some (Directory 4096)"
    "\<not> read_only ex_world_with_directory"
    by (simp_all add: ex_world_with_directory_def)
  note T = compute_size_removes_tmp_file
    [where serialise = ex_serialise and self = ex_benchmark]
  from T [where w = ex_world] h obtain res w' where
    r: "compute_size ex_serialise ex_benchmark ex_world = (Inr res, w')"
    by blast
  from T [where w = ex_world and res = res and w' = w'] r h have
    res: "\<exists>bs. ex_serialise (state_dict ex_benchmark) = Inr bs \<and>
            res = [''size_mb'' \<mapsto> Finite (real (length bs) / (1024 * 1024))]" and
    w': "w' = ex_world\<lparr>stdout := stdout ex_world @ [ModelSize (the (res ''size_mb''))]\<rparr>"
    by blast+
  from res h(3) have res2: "res = [''size_mb'' \<mapsto> Finite 2]" by auto
  from w' res2 have "w' = ex_world\<lparr>stdout := [ModelSize (Finite 2)]\<rparr>"
    by (simp add: ex_world_def)
  with r res2 have a: "compute_size ex_serialise ex_benchmark ex_world =
     (Inr [''size_mb'' \<mapsto> Finite 2], ex_world\<lparr>stdout := [ModelSize (Finite 2)]\<rparr>)"
    by simp
  from T [where w = ex_world_with_directory and n = 4096] d have
    b: "compute_size ex_serialise ex_benchmark ex_world_with_directory =
     (Inl IsADirectoryError, ex_world_with_directory)"
    by blast
  from h d a b show ?thesis by blast
qed

text \<open>
  The claim as stated (the filesystem is unchanged by every invocation that returns)
  fails where \<open>model.pt\<close> is a file before the call: the file is overwritten, measured
  and deleted, so it is gone on return.
\<close>

theorem compute_size_changes_filesystem:
  "compute_size ex_serialise ex_benchmark ex_world_with_model =
     (Inr [''size_mb'' \<mapsto> Finite 2],
      \<lparr>entries = [], contents = [], read_only = False, stdout = [ModelSize (Finite 2)],
       ext = 0\<rparr>) \<and>
   entries ex_world_with_model
     \<noteq> entries \<lparr>entries = [], contents = [], read_only = False,
                stdout = [ModelSize (Finite 2)], ext = 0 :: nat\<rparr>"
proof -
  have r: "resolve 40 [(''model.pt'', File i)] ''model.pt'' = Inr (''model.pt'', Some (File i))"
    for i
    by (rule resolve_File) simp
  show ?thesis
    by (simp add: compute_size_def torch_save_def write_file_def st_size_def content_of_def
          unlink_def print_def Let_def r ex_world_with_model_def ex_serialise_def
          ex_benchmark_def)
qed

text \<open>
  It fails too where \<open>model.pt\<close> is a second name of another file: the state dictionary
  is written through the link, so the file \<open>other.bin\<close> holds it after the call.
\<close>

lemma compute_size_writes_through_link:
  "compute_size ex_serialise ex_benchmark ex_world_with_link =
     (Inr [''size_mb'' \<mapsto> Finite 2],
      \<lparr>entries = [(''other.bin'', File 1)], contents = [(1, replicate 2097152 0)],
       read_only = False, stdout = [ModelSize (Finite 2)], ext = 0\<rparr>)"
proof -
  have r: "resolve 40 [(''other.bin'', File i), (''model.pt'', File i)] ''model.pt''
             = Inr (''model.pt'', Some (File i))"
    for i
    by (rule resolve_File) simp
  show ?thesis
    by (simp add: compute_size_def torch_save_def write_file_def st_size_def content_of_def
          unlink_def print_def Let_def r ex_world_with_link_def ex_serialise_def
          ex_benchmark_def)
qed

text \<open>
  And where \<open>model.pt\<close> is a symbolic link to another file: the state dictionary is
  written to that file, which stays, and the link is removed.
\<close>

lemma compute_size_writes_through_symlink:
  "compute_size ex_serialise ex_benchmark ex_world_with_symlink =
     (Inr [''size_mb'' \<mapsto> Finite 2],
      \<lparr>entries = [(''weights.bin'', File 1)], contents = [(1, replicate 2097152 0)],
       read_only = False, stdout = [ModelSize (Finite 2)], ext = 0\<rparr>)"
proof -
  have r: "resolve 40 [(''weights.bin'', File i), (''model.pt'', Symlink ''weights.bin'')]
             ''model.pt'' = Inr (''weights.bin'', Some (File i))"
    for i
    using resolve.simps(2)
      [of 39 "[(''weights.bin'', File i), (''model.pt'', Symlink ''weights.bin'')]" "''model.pt''"]
    by (simp add: resolve_File [where i = i])
  show ?thesis
    by (simp add: compute_size_def torch_save_def write_file_def st_size_def content_of_def
          unlink_def print_def Let_def r ex_world_with_symlink_def ex_serialise_def
          ex_benchmark_def)
qed

subsection \<open>\<open>time_pipeline\<close>\<close>

text \<open>
  The warmup loop returns exactly when its runs of the pipeline return, and changes
  nothing but the rest of the world, by induction on the number of rounds; the world is
  generalised since every round changes it.
\<close>

lemma call_pipeline_eq:
  "call_pipeline self query w = (fst (pipeline self query (ext w)), w\<lparr>ext := snd (pipeline self query (ext w))\<rparr>)"
  by (simp add: call_pipeline_def split: prod.splits)

lemma warmup_runs:
  "runs n (pipeline self query) (ext w) x \<Longrightarrow> warmup n self query w = (Inr (), w\<lparr>ext := x\<rparr>)"
proof (induction n arbitrary: w)
  case 0
  then show ?case by simp
next
  case (Suc n)
  obtain r x1 where p: "pipeline self query (ext w) = (r, x1)"
    by (cases "pipeline self query (ext w)")
  with Suc.prems obtain u where r: "r = Inr u" and rest: "runs n (pipeline self query) x1 x"
    by (cases r) auto
  from Suc.IH [of "w\<lparr>ext := x1\<rparr>"] rest have
    "warmup n self query (w\<lparr>ext := x1\<rparr>) = (Inr (), w\<lparr>ext := x\<rparr>)" by simp
  with p r show ?case by (simp add: call_pipeline_def)
qed

lemma warmup_Inr:
  "warmup n self query w = (Inr u, w') \<Longrightarrow>
     runs n (pipeline self query) (ext w) (ext w') \<and> w' = w\<lparr>ext := ext w'\<rparr>"
proof (induction n arbitrary: w)
  case 0
  then show ?case by auto
next
  case (Suc n)
  obtain r x1 where p: "pipeline self query (ext w) = (r, x1)"
    by (cases "pipeline self query (ext w)")
  with Suc.prems obtain v where r: "r = Inr v"
    and rest: "warmup n self query (w\<lparr>ext := x1\<rparr>) = (Inr u, w')"
    by (cases r) (auto simp: call_pipeline_def)
  from Suc.IH [OF rest] p r show ?case by simp
qed

text \<open>
  The timed loop under a bound clock: a call that returns has gone through one timed
  round for each latency it appended, and the other way round.
\<close>

lemma call_perf_counter_Some:
  "call_perf_counter (Some clock) w = (Inr (fst (clock (ext w))), w\<lparr>ext := snd (clock (ext w))\<rparr>)"
  by (simp add: call_perf_counter_def split: prod.splits)

lemma timed_run_Inr:
  "timed_run n (Some clock) self query latencies w = (Inr latencies', w') \<Longrightarrow>
     \<exists>ticks. length ticks = n \<and>
       timed_rounds clock (pipeline self query) (ext w) ticks (ext w') \<and>
       latencies' = latencies @ map (\<lambda>(s, e). e - s) ticks \<and>
       w' = w\<lparr>ext := ext w'\<rparr>"
proof (induction n arbitrary: w latencies)
  case 0
  then show ?case by auto
next
  case (Suc n)
  obtain s x1 where c1: "clock (ext w) = (s, x1)" by (cases "clock (ext w)")
  obtain r x2 where p: "pipeline self query x1 = (r, x2)" by (cases "pipeline self query x1")
  obtain e x3 where c2: "clock x2 = (e, x3)" by (cases "clock x2")
  from Suc.prems c1 p obtain v where r: "r = Inr v"
    by (cases r) (auto simp: call_perf_counter_Some call_pipeline_def)
  from Suc.prems c1 p r c2 have
    rest: "timed_run n (Some clock) self query (latencies @ [e - s]) (w\<lparr>ext := x3\<rparr>)
             = (Inr latencies', w')"
    by (simp add: call_perf_counter_Some call_pipeline_def Let_def)
  from Suc.IH [OF rest] obtain ticks where t:
    "length ticks = n" "timed_rounds clock (pipeline self query) x3 ticks (ext w')"
    "latencies' = (latencies @ [e - s]) @ map (\<lambda>(s, e). e - s) ticks"
    "w' = w\<lparr>ext := ext w'\<rparr>"
    by auto
  have "length ((s, e) # ticks) = Suc n \<and>
       timed_rounds clock (pipeline self query) (ext w) ((s, e) # ticks) (ext w') \<and>
       latencies' = latencies @ map (\<lambda>(s, e). e - s) ((s, e) # ticks) \<and>
       w' = w\<lparr>ext := ext w'\<rparr>"
    using t c1 p r c2 by simp
  then show ?case by blast
qed

lemma timed_run_rounds:
  "timed_rounds clock (pipeline self query) (ext w) ticks x \<Longrightarrow>
     timed_run (length ticks) (Some clock) self query latencies w
       = (Inr (latencies @ map (\<lambda>(s, e). e - s) ticks), w\<lparr>ext := x\<rparr>)"
proof (induction ticks arbitrary: w latencies)
  case Nil
  then show ?case by simp
next
  case (Cons tick ticks)
  obtain s x1 where c1: "clock (ext w) = (s, x1)" by (cases "clock (ext w)")
  obtain r x2 where p: "pipeline self query x1 = (r, x2)" by (cases "pipeline self query x1")
  obtain e x3 where c2: "clock x2 = (e, x3)" by (cases "clock x2")
  from Cons.prems c1 p obtain v where r: "r = Inr v" by (cases r) auto
  from Cons.prems c1 p r c2 have tick: "tick = (s, e)"
    and rest: "timed_rounds clock (pipeline self query) x3 ticks x"
    by (auto simp: prod_eq_iff)
  from Cons.IH [of "w\<lparr>ext := x3\<rparr>" "latencies @ [e - s]"] rest have
    "timed_run (length ticks) (Some clock) self query (latencies @ [e - s]) (w\<lparr>ext := x3\<rparr>)
       = (Inr ((latencies @ [e - s]) @ map (\<lambda>(s, e). e - s) ticks), w\<lparr>ext := x\<rparr>)"
    by simp
  with c1 p r c2 tick show ?case
    by (simp add: call_perf_counter_Some call_pipeline_def Let_def)
qed

text \<open>
  The timed loop where \<open>perf_counter\<close> is not bound: its first statement raises.
\<close>

lemma timed_run_unbound:
  "0 < n \<Longrightarrow> timed_run n None self query latencies w = (Inl NameError, w)"
  by (cases n) (simp_all add: call_perf_counter_def)

text \<open>
  The method under a bound clock. It returns exactly when ten runs of the pipeline
  return and one hundred timed rounds follow them; it then has printed one line and
  returns the mean and the standard deviation of the one hundred differences between
  the two readings of a round, times one thousand.
\<close>

lemma time_pipeline_bound_clock:
  "time_pipeline (Some clock) self query_arg w = (Inr res, w') \<longleftrightarrow>
     (\<exists>x1 ticks.
        runs 10 (pipeline self (query_of query_arg)) (ext w) x1 \<and>
        length ticks = 100 \<and>
        timed_rounds clock (pipeline self (query_of query_arg)) x1 ticks (ext w') \<and>
        res = [''time_avg_ms'' \<mapsto> smul 1000 (np_mean (map (\<lambda>(s, e). e - s) ticks)),
               ''time_std_ms'' \<mapsto> smul 1000 (np_std (map (\<lambda>(s, e). e - s) ticks))] \<and>
        w' = w\<lparr>stdout := stdout w @
                   [AverageLatency (smul 1000 (np_mean (map (\<lambda>(s, e). e - s) ticks)))
                      (smul 1000 (np_std (map (\<lambda>(s, e). e - s) ticks)))],
                ext := ext w'\<rparr>)"
proof
  let ?q = "query_of query_arg"
  assume r: "time_pipeline (Some clock) self query_arg w = (Inr res, w')"
  then obtain u w1 where a: "warmup 10 self ?q w = (Inr u, w1)"
    by (auto simp: time_pipeline_def Let_def split: prod.splits sum.splits)
  with r obtain lats w2 where b: "timed_run 100 (Some clock) self ?q [] w1 = (Inr lats, w2)"
    by (auto simp: time_pipeline_def Let_def split: prod.splits sum.splits)
  from r a b have res: "res = [''time_avg_ms'' \<mapsto> smul 1000 (np_mean lats),
                               ''time_std_ms'' \<mapsto> smul 1000 (np_std lats)]"
    and w': "w' = print (AverageLatency (smul 1000 (np_mean lats)) (smul 1000 (np_std lats))) w2"
    by (simp_all add: time_pipeline_def Let_def)
  from warmup_Inr [OF a] have a1: "runs 10 (pipeline self ?q) (ext w) (ext w1)"
    and a2: "w1 = w\<lparr>ext := ext w1\<rparr>" by auto
  from timed_run_Inr [OF b] obtain ticks where t:
    "length ticks = 100" "timed_rounds clock (pipeline self ?q) (ext w1) ticks (ext w2)"
    "lats = map (\<lambda>(s, e). e - s) ticks" "w2 = w1\<lparr>ext := ext w2\<rparr>"
    by auto
  have e: "ext w' = ext w2" using w' by (simp add: print_def)
  have "w' = w\<lparr>stdout := stdout w @
                   [AverageLatency (smul 1000 (np_mean lats)) (smul 1000 (np_std lats))],
                ext := ext w'\<rparr>"
  proof -
    from t(4) a2 have "w2 = w\<lparr>ext := ext w2\<rparr>" by (metis world.update_convs(5) world.surjective)
    then have "print (AverageLatency (smul 1000 (np_mean lats)) (smul 1000 (np_std lats))) w2
        = w\<lparr>stdout := stdout w @
                   [AverageLatency (smul 1000 (np_mean lats)) (smul 1000 (np_std lats))],
             ext := ext w2\<rparr>"
      by (cases w, cases w2) (simp add: print_def)
    with w' e show ?thesis by simp
  qed
  with a1 t res e show "\<exists>x1 ticks.
        runs 10 (pipeline self ?q) (ext w) x1 \<and>
        length ticks = 100 \<and>
        timed_rounds clock (pipeline self ?q) x1 ticks (ext w') \<and>
        res = [''time_avg_ms'' \<mapsto> smul 1000 (np_mean (map (\<lambda>(s, e). e - s) ticks)),
               ''time_std_ms'' \<mapsto> smul 1000 (np_std (map (\<lambda>(s, e). e - s) ticks))] \<and>
        w' = w\<lparr>stdout := stdout w @
                   [AverageLatency (smul 1000 (np_mean (map (\<lambda>(s, e). e - s) ticks)))
                      (smul 1000 (np_std (map (\<lambda>(s, e). e - s) ticks)))],
                ext := ext w'\<rparr>"
    by auto
next
  let ?q = "query_of query_arg"
  assume "\<exists>x1 ticks.
        runs 10 (pipeline self ?q) (ext w) x1 \<and>
        length ticks = 100 \<and>
        timed_rounds clock (pipeline self ?q) x1 ticks (ext w') \<and>
        res = [''time_avg_ms'' \<mapsto> smul 1000 (np_mean (map (\<lambda>(s, e). e - s) ticks)),
               ''time_std_ms'' \<mapsto> smul 1000 (np_std (map (\<lambda>(s, e). e - s) ticks))] \<and>
        w' = w\<lparr>stdout := stdout w @
                   [AverageLatency (smul 1000 (np_mean (map (\<lambda>(s, e). e - s) ticks)))
                      (smul 1000 (np_std (map (\<lambda>(s, e). e - s) ticks)))],
                ext := ext w'\<rparr>"
  then obtain x1 ticks where
    a: "runs 10 (pipeline self ?q) (ext w) x1" and
    n: "length ticks = 100" and
    t: "timed_rounds clock (pipeline self ?q) x1 ticks (ext w')" and
    res: "res = [''time_avg_ms'' \<mapsto> smul 1000 (np_mean (map (\<lambda>(s, e). e - s) ticks)),
               ''time_std_ms'' \<mapsto> smul 1000 (np_std (map (\<lambda>(s, e). e - s) ticks))]" and
    w': "w' = w\<lparr>stdout := stdout w @
                   [AverageLatency (smul 1000 (np_mean (map (\<lambda>(s, e). e - s) ticks)))
                      (smul 1000 (np_std (map (\<lambda>(s, e). e - s) ticks)))],
                ext := ext w'\<rparr>"
    by blast
  from warmup_runs [OF a] have 1: "warmup 10 self ?q w = (Inr (), w\<lparr>ext := x1\<rparr>)" .
  from timed_run_rounds [of clock self ?q "w\<lparr>ext := x1\<rparr>" ticks "ext w'" "[]"] t n
  have 2: "timed_run 100 (Some clock) self ?q [] (w\<lparr>ext := x1\<rparr>)
             = (Inr (map (\<lambda>(s, e). e - s) ticks), w\<lparr>ext := ext w'\<rparr>)"
    by simp
  have "time_pipeline (Some clock) self query_arg w =
          (Inr res, w\<lparr>stdout := stdout w @
                   [AverageLatency (smul 1000 (np_mean (map (\<lambda>(s, e). e - s) ticks)))
                      (smul 1000 (np_std (map (\<lambda>(s, e). e - s) ticks)))],
                ext := ext w'\<rparr>)"
    unfolding res by (simp add: time_pipeline_def Let_def 1 2 print_def)
  with w' show "time_pipeline (Some clock) self query_arg w = (Inr res, w')" by simp
qed

text \<open>The two statistics of one hundred latencies are numbers.\<close>

lemma np_mean_100:
  "length xs = 100 \<Longrightarrow> smul 1000 (np_mean xs) = Finite (1000 * (sum_list xs / 100))"
  by (auto simp: np_mean_def)

lemma np_std_100:
  "length xs = 100 \<Longrightarrow>
     smul 1000 (np_std xs)
       = Finite (1000 * sqrt (sum_list (map (\<lambda>x. (x - sum_list xs / 100) ^ 2) xs) / 100))"
  by (auto simp: np_std_def Let_def)

text \<open>
  On the worked pipeline and clock every timed round takes four milliseconds, so the
  mean is 4 ms and the deviation 0 ms; the rest of the world has advanced by the three
  ticks of each of the 110 runs and the one tick of each of the 200 readings of the
  clock.
\<close>

lemma ex_runs:
  "runs n (pipeline ex_benchmark q) x (x + 3 * n)"
proof (induction n arbitrary: x)
  case 0
  then show ?case by simp
next
  case (Suc n)
  from Suc.IH [of "x + 3"] show ?case by (simp add: ex_benchmark_def ac_simps)
qed

lemma ex_timed_run:
  "timed_run n (Some ex_clock) ex_benchmark q lats w
     = (Inr (lats @ replicate n (1 / 250)), w\<lparr>ext := ext w + 5 * n\<rparr>)"
proof (induction n arbitrary: lats w)
  case 0
  then show ?case by simp
next
  case (Suc n)
  show ?case
    using Suc.IH [of "lats @ [1 / 250]" "w\<lparr>ext := ext w + 5\<rparr>"]
    by (simp add: call_perf_counter_def call_pipeline_def ex_clock_def ex_benchmark_def
          replicate_append_same field_simps)
qed

lemma time_pipeline_ex:
  "time_pipeline (Some ex_clock) ex_benchmark None ex_world =
     (Inr [''time_avg_ms'' \<mapsto> Finite 4, ''time_std_ms'' \<mapsto> Finite 0],
      ex_world\<lparr>stdout := [AverageLatency (Finite 4) (Finite 0)], ext := 530\<rparr>)"
proof -
  have a: "warmup 10 ex_benchmark (query_of None) ex_world = (Inr (), ex_world\<lparr>ext := 30\<rparr>)"
    using warmup_runs [OF ex_runs [of 10 "query_of None" "ext ex_world"]]
    by (simp add: ex_world_def)
  have b: "timed_run 100 (Some ex_clock) ex_benchmark (query_of None) [] (ex_world\<lparr>ext := 30\<rparr>)
             = (Inr (replicate 100 (1 / 250)), ex_world\<lparr>ext := 530\<rparr>)"
    by (simp add: ex_timed_run)
  have m: "np_mean (replicate 100 (1 / 250 :: real)) = Finite (1 / 250)"
    by (simp add: np_mean_def sum_list_replicate)
  have s: "np_std (replicate 100 (1 / 250 :: real)) = Finite 0"
    by (simp add: np_std_def sum_list_replicate Let_def)
  have "time_pipeline (Some ex_clock) ex_benchmark None ex_world =
     (Inr [''time_avg_ms'' \<mapsto> Finite 4, ''time_std_ms'' \<mapsto> Finite 0],
      print (AverageLatency (Finite 4) (Finite 0)) (ex_world\<lparr>ext := 530\<rparr>))"
    by (simp add: time_pipeline_def Let_def a b m s)
  then show ?thesis
    by (simp add: print_def ex_world_def)
qed

text \<open>
  Claim C9, on the notebook as it is. No cell binds \<open>perf_counter\<close>, so no invocation of
  \<open>time_pipeline\<close> returns: every invocation raises, and where the ten warmup runs of
  the pipeline return, the first statement of the timed loop raises \<open>NameError\<close>. The
  pipeline has then run ten times, not 110 times, no latency has been measured and no
  record is returned.
\<close>

theorem time_pipeline_raises_NameError:
  "(\<exists>e w'. time_pipeline None self query_arg w = (Inl e, w')) \<and>
   (runs 10 (pipeline self (query_of query_arg)) (ext w) x \<longrightarrow>
      time_pipeline None self query_arg w = (Inl NameError, w\<lparr>ext := x\<rparr>))"
proof
  show "\<exists>e w'. time_pipeline None self query_arg w = (Inl e, w')"
  proof -
    obtain r w1 where a: "warmup 10 self (query_of query_arg) w = (r, w1)"
      by (cases "warmup 10 self (query_of query_arg) w")
    show ?thesis
    proof (cases r)
      case (Inl e)
      with a show ?thesis by (simp add: time_pipeline_def)
    next
      case (Inr u)
      with a show ?thesis by (simp add: time_pipeline_def timed_run_unbound)
    qed
  qed
  show "runs 10 (pipeline self (query_of query_arg)) (ext w) x \<longrightarrow>
      time_pipeline None self query_arg w = (Inl NameError, w\<lparr>ext := x\<rparr>)"
  proof
    assume "runs 10 (pipeline self (query_of query_arg)) (ext w) x"
    from warmup_runs [OF this] show
      "time_pipeline None self query_arg w = (Inl NameError, w\<lparr>ext := x\<rparr>)"
      by (simp add: time_pipeline_def timed_run_unbound)
  qed
qed

text \<open>
  The theorem on the worked pipeline, which never raises and advances the rest of the
  world by three ticks a run: the invocation with the default query raises
  \<open>NameError\<close> after ten runs.
\<close>

theorem time_pipeline_raises_NameError_witness:
  "runs 10 (pipeline ex_benchmark (query_of None)) (ext ex_world) 30 \<and>
   time_pipeline None ex_benchmark None ex_world = (Inl NameError, ex_world\<lparr>ext := 30\<rparr>)"
proof -
  have r: "runs 10 (pipeline ex_benchmark (query_of None)) (ext ex_world) 30"
    using ex_runs [of 10 "query_of None" "ext ex_world"] by (simp add: ex_world_def)
  with time_pipeline_raises_NameError [of ex_benchmark None ex_world 30]
  show ?thesis by blast
qed

section \<open>The token classifier: proofs\<close>

subsection \<open>Tensors and the layers of the head\<close>

text \<open>
  Cutting the concatenation of rows of equal length back into rows gives the rows: this
  is what \<open>view(-1, n)\<close> does to logits whose last dimension is \<open>n\<close>.
\<close>

lemma chunks_concat:
  "0 < n \<Longrightarrow> list_all (\<lambda>r. length r = n) rows \<Longrightarrow> chunks n (concat rows) = rows"
proof (induction rows)
  case Nil
  then show ?case by simp
next
  case (Cons r rows)
  then have r: "length r = n" and rest: "list_all (\<lambda>r. length r = n) rows" by simp_all
  from Cons.prems(1) r have "r \<noteq> []" by auto
  with Cons.prems(1) r Cons.IH [OF Cons.prems(1) rest] show ?case
    by (subst chunks.simps) simp
qed

lemma length_concat_rows:
  "list_all (\<lambda>r. length r = n) rows \<Longrightarrow> length (concat rows) = length rows * n"
  by (induction rows) simp_all

lemma list_all_concat:
  "list_all (list_all P) xs \<Longrightarrow> list_all P (concat xs)"
  by (auto simp: list_all_iff)

lemma list_ex_concat: "list_ex (list_ex P) xs \<Longrightarrow> list_ex P (concat xs)"
  by (auto simp: list_ex_iff)

lemma view_rows_ok:
  assumes "0 < n" and "list_all (list_all (\<lambda>v. length v = n)) x"
  shows "view_rows n x = Inr (concat x)"
proof -
  from assms(2) have rows: "list_all (\<lambda>r. length r = n) (concat x)"
    by (rule list_all_concat)
  from length_concat_rows [OF rows] have "length (concat (concat x)) mod n = 0" by simp
  with assms(1) chunks_concat [OF assms(1) rows] show ?thesis
    by (simp add: view_rows_def)
qed

lemma length_linear_vec:
  "length (linear_vec l v) = min (length (weight l)) (length (bias l))"
  by (simp add: linear_vec_def)

lemma linear_apply_Inr:
  "linear_apply l x = Inr y \<Longrightarrow>
     y = map (map (linear_vec l)) x \<and> list_all (list_all (\<lambda>v. length v = in_features l)) x"
  by (auto simp: linear_apply_def list_all_iff list_ex_iff split: if_splits)

lemma linear_apply_ok:
  "list_all (list_all (\<lambda>v. length v = in_features l)) x \<Longrightarrow>
     linear_apply l x = Inr (map (map (linear_vec l)) x)"
  by (auto simp: linear_apply_def list_all_iff list_ex_iff)

lemma dot_sum:
  "length v = length w \<Longrightarrow> dot w v = (\<Sum>j<length w. w ! j * v ! j)"
  by (simp add: dot_def sum_list_sum_nth atLeast0LessThan)

lemma linear_vec_nth:
  assumes "k < length (weight l)" and "k < length (bias l)"
  shows "linear_vec l v ! k = dot (weight l ! k) v + bias l ! k"
  using assms by (simp add: linear_vec_def)

lemma length_map_indexed [simp]: "length (map_indexed f xs) = length xs"
  by (simp add: map_indexed_def)

lemma nth_map_indexed [simp]: "i < length xs \<Longrightarrow> map_indexed f xs ! i = f i (xs ! i)"
  by (simp add: map_indexed_def nth_enumerate_eq)

lemma dropout_apply_length [simp]: "length (dropout_apply p tr keep x) = length x"
  by (simp add: dropout_apply_def)

lemma dropout_apply_shape:
  "has_shape3 (dropout_apply p tr keep x) B L N = has_shape3 x B L N"
  by (simp add: has_shape3_def dropout_apply_def list_all_length)

lemma dropout_apply_rows:
  "list_all (list_all (\<lambda>v. length v = N)) (dropout_apply p tr keep x)
     = list_all (list_all (\<lambda>v. length v = N)) x"
  by (simp add: dropout_apply_def list_all_length)

lemma dropout_apply_tokens:
  "list_all2 (\<lambda>row idrow. length row = length idrow) (dropout_apply p tr keep x) ids
     = list_all2 (\<lambda>row idrow. length row = length idrow) x ids"
  by (auto simp: dropout_apply_def list_all2_conv_all_nth)

lemma has_shape3_map_map:
  "(\<And>v. length (f v) = M) \<Longrightarrow> has_shape3 x B L N \<Longrightarrow> has_shape3 (map (map f) x) B L M"
  by (auto simp: has_shape3_def list_all_iff)

lemma has_shape3_of_tokens:
  assumes "has_shape2 ids B L"
    and "list_all2 (\<lambda>row idrow. length row = length idrow) hs ids"
    and "list_all (list_all (\<lambda>v. length v = N)) hs"
  shows "has_shape3 hs B L N"
  using assms
  by (auto simp: has_shape2_def has_shape3_def list_all2_conv_all_nth list_all_length)

lemma has_shape3_concat:
  "has_shape3 x B L N \<Longrightarrow> length (concat x) = B * L \<and> list_all (\<lambda>r. length r = N) (concat x)"
proof (induction x arbitrary: B)
  case Nil
  then show ?case by (simp add: has_shape3_def)
next
  case (Cons row x)
  from Cons.prems obtain B' where B: "B = Suc B'" and rest: "has_shape3 x B' L N"
    and row: "length row = L" "list_all (\<lambda>v. length v = N) row"
    by (cases B) (auto simp: has_shape3_def)
  from Cons.IH [OF rest] row B show ?case by simp
qed

lemma rows_of_shape3:
  "has_shape3 x B L N \<Longrightarrow> list_all (list_all (\<lambda>v. length v = N)) x"
  by (auto simp: has_shape3_def list_all_iff)


subsection \<open>The constructor and the forward pass\<close>

lemma init_Inr:
  assumes "init RobertaModel sample cfg = Inr self"
  shows "\<exists>body. RobertaModel cfg False = Inr body \<and>
     self = \<lparr>config = cfg, n_labels = num_labels cfg, roberta = body,
             dropout = hidden_dropout_prob cfg,
             classifier =
               \<lparr>in_features = hidden_size cfg, out_features = num_labels cfg,
                weight = map (\<lambda>k. map (sample k) [0..<hidden_size cfg]) [0..<num_labels cfg],
                bias = replicate (num_labels cfg) 0\<rparr>,
             training = True\<rparr>"
  using assms
  by (auto simp: init_def nn_Dropout_def init_weights_def nn_Linear_def
      split: sum.splits if_splits)

lemma init_head_consistent:
  "init RobertaModel sample cfg = Inr self \<Longrightarrow> head_consistent self"
  by (drule init_Inr) (auto simp: head_consistent_def list_all_iff)

lemma has_shape3_linear:
  assumes "head_consistent self" and "has_shape3 x B L N"
  shows "has_shape3 (map (map (linear_vec (classifier self))) x) B L (n_labels self)"
proof -
  from assms(1) have len: "length (linear_vec (classifier self) v) = n_labels self" for v
    by (simp add: length_linear_vec head_consistent_def)
  show ?thesis by (rule has_shape3_map_map [OF len assms(2)])
qed

lemma linear_rows:
  "head_consistent self \<Longrightarrow>
     list_all (list_all (\<lambda>v. length v = n_labels self)) (map (map (linear_vec (classifier self))) x)"
  by (simp add: list_all_iff length_linear_vec head_consistent_def)

text \<open>
  What a returning forward pass has computed.
\<close>

lemma forward_Inr:
  assumes "forward self seed keep input_ids attention_mask token_type_ids labels kwargs = Inr out"
  shows "\<exists>base. roberta self (training self) seed input_ids attention_mask token_type_ids kwargs
             = Inr (ModelOutput base) \<and>
           linear_apply (classifier self)
             (dropout_apply (dropout self) (training self) keep (last_hidden_state base))
             = Inr (logits out) \<and>
           token_loss (n_labels self) (logits out) labels = Inr (loss out) \<and>
           hidden_states out = enc_hidden_states base \<and> attentions out = enc_attentions base"
  using assms
  by (auto simp: forward_def Let_def split: sum.splits body_output.splits)

text \<open>
  The forward pass with labels, once the body has returned hidden states of the
  classifier's input size.
\<close>

lemma forward_with_labels:
  assumes hc: "head_consistent self" and n: "0 < n_labels self"
    and enc: "roberta self (training self) seed input_ids attention_mask token_type_ids kwargs
           = Inr outputs"
    and rows: "list_all (list_all (\<lambda>v. length v = in_features (classifier self)))
           (first_output outputs)"
  shows "forward self seed keep input_ids attention_mask token_type_ids (Some ls) kwargs =
     (case cross_entropy
        (concat (map (map (linear_vec (classifier self)))
           (dropout_apply (dropout self) (training self) keep (first_output outputs))))
        (concat ls) of
        Inl e \<Rightarrow> Inl e
      | Inr l \<Rightarrow>
          (case outputs of
             TupleOutput h \<Rightarrow> Inl AttributeError
           | ModelOutput base \<Rightarrow>
               Inr \<lparr>loss = Some l,
                    logits = map (map (linear_vec (classifier self)))
                      (dropout_apply (dropout self) (training self) keep (first_output outputs)),
                    hidden_states = enc_hidden_states base,
                    attentions = enc_attentions base\<rparr>))"
proof -
  let ?d = "dropout_apply (dropout self) (training self) keep (first_output outputs)"
  let ?lg = "map (map (linear_vec (classifier self))) ?d"
  from rows have "list_all (list_all (\<lambda>v. length v = in_features (classifier self))) ?d"
    by (simp add: dropout_apply_rows)
  then have lin: "linear_apply (classifier self) ?d = Inr ?lg" by (rule linear_apply_ok)
  have view: "view_rows (n_labels self) ?lg = Inr (concat ?lg)"
    by (rule view_rows_ok [OF n linear_rows [OF hc]])
  show ?thesis
    by (simp add: forward_def enc lin token_loss_def view split: sum.splits)
qed

lemma forward_loss:
  assumes hc: "head_consistent self"
    and r: "forward self seed keep input_ids attention_mask token_type_ids (Some ls) kwargs
              = Inr out"
  shows "0 < n_labels self \<and>
     (\<exists>l. cross_entropy (concat (logits out)) (concat ls) = Inr l \<and> loss out = Some l)"
proof -
  from forward_Inr [OF r] obtain base :: base_output where
    lin: "linear_apply (classifier self)
            (dropout_apply (dropout self) (training self) keep (last_hidden_state base))
          = Inr (logits out)" and
    tl: "token_loss (n_labels self) (logits out) (Some ls) = Inr (loss out)"
    by auto
  from tl have n: "0 < n_labels self"
    by (cases "n_labels self") (auto simp: token_loss_def view_rows_def)
  from linear_apply_Inr [OF lin] linear_rows [OF hc]
  have "list_all (list_all (\<lambda>v. length v = n_labels self)) (logits out)" by simp
  from view_rows_ok [OF n this] tl n show ?thesis
    by (auto simp: token_loss_def split: sum.splits)
qed

text \<open>
  An exception of the body is the exception of the forward pass, and so is the missing
  attribute of a plain tuple.
\<close>

lemma forward_propagates_body_error:
  "roberta self (training self) seed input_ids attention_mask token_type_ids kwargs = Inl e \<Longrightarrow>
     forward self seed keep input_ids attention_mask token_type_ids labels kwargs = Inl e"
  by (simp add: forward_def)

lemma forward_on_tuple_raises:
  "roberta self (training self) seed input_ids attention_mask token_type_ids kwargs
     = Inr (TupleOutput h) \<Longrightarrow>
   \<exists>e. forward self seed keep input_ids attention_mask token_type_ids labels kwargs = Inl e"
  by (auto simp: forward_def Let_def split: sum.splits)

subsection \<open>The cross-entropy loss\<close>

lemma active_all_ignored:
  "list_all (\<lambda>y. y = ignore_index) target \<Longrightarrow> active input target = []"
  by (auto simp: active_def filter_empty_conv list_all_iff dest: set_zip_rightD)

lemma cross_entropy_all_ignored:
  "length input = length target \<Longrightarrow> list_all (\<lambda>y. y = ignore_index) target \<Longrightarrow>
     cross_entropy input target = Inr NaN"
  by (simp add: cross_entropy_def active_all_ignored)






lemma active_cong:
  assumes "length input = length target" and "length input' = length target"
    and "\<forall>i<length target. target ! i \<noteq> ignore_index \<longrightarrow> input' ! i = input ! i"
  shows "active input' target = active input target"
  using assms
proof (induction target arbitrary: input input')
  case Nil
  then show ?case by (simp add: active_def)
next
  case (Cons y target)
  from Cons.prems(1,2) obtain x xs x' xs' where
    i: "input = x # xs" "input' = x' # xs'" "length xs = length target" "length xs' = length target"
    by (cases input; cases input') auto
  from Cons.prems(3) i have rest: "\<forall>i<length target. target ! i \<noteq> ignore_index \<longrightarrow> xs' ! i = xs ! i"
    by fastforce
  from Cons.prems(3) i have hd: "y \<noteq> ignore_index \<longrightarrow> x' = x" by fastforce
  from Cons.IH [OF i(3,4) rest] hd i show ?case
    by (auto simp: active_def)
qed

lemma cross_entropy_cong:
  assumes "length input' = length input"
    and "\<forall>i<length target. target ! i \<noteq> ignore_index \<longrightarrow> input' ! i = input ! i"
  shows "cross_entropy input' target = cross_entropy input target"
proof (cases "length input = length target")
  case True
  with assms(1) have "length input' = length target" by simp
  from active_cong [OF True this assms(2)] True assms(1) show ?thesis
    by (simp add: cross_entropy_def)
next
  case False
  with assms(1) show ?thesis by (simp add: cross_entropy_def)
qed

lemma cross_entropy_Inr_length:
  "cross_entropy input target = Inr l \<Longrightarrow> length input = length target"
  by (auto simp: cross_entropy_def split: if_splits)

subsection \<open>The worked inputs, evaluated\<close>

lemma init_ex: "init ex_RobertaModel ex_sample ex_config = Inr ex_model"
proof -
  have u: "[0..<7] = [0, 1, 2, 3, 4, 5, 6]" by (simp add: upt_rec)
  have b: "replicate 7 (0 :: real) = [0, 0, 0, 0, 0, 0, 0]"
    by (simp add: numeral_eq_Suc)
  show ?thesis
    by (simp add: init_def ex_RobertaModel_def ex_config_def nn_Dropout_def init_weights_def
        nn_Linear_def ex_model_def ex_classifier_def ex_sample_def u b)
qed

lemma ex_head_consistent: "head_consistent ex_model" "head_consistent ex_eval"
  by (simp_all add: head_consistent_def ex_eval_def ex_model_def ex_classifier_def)

lemma ex_body_ids:
  "ex_body tr seed (Some ex_ids) m t k = Inr (ModelOutput ex_base)"
  by (simp add: ex_body_def ex_ids_def ex_base_def)

lemma ex_linear: "linear_apply ex_classifier [[[0], [1], [1], [1]]] = Inr ex_logits"
  by (simp add: linear_apply_def linear_vec_def ex_classifier_def dot_def ex_logits_def)

lemma ex_forward_eval_no_labels:
  "forward ex_eval seed keep (Some ex_ids) m t None ()
     = Inr \<lparr>loss = None, logits = ex_logits, hidden_states = None, attentions = None\<rparr>"
  by (simp add: forward_def ex_eval_def ex_model_def ex_body_ids dropout_apply_def
      token_loss_def ex_base_def ex_linear)

lemma ex_dropout_keep:
  "dropout_apply (1 / 10) True ex_keep [[[0], [1], [1], [1]]] = [[[0], [10 / 9], [10 / 9], [10 / 9]]]"
  by (simp add: dropout_apply_def map_indexed_def ex_keep_def)

lemma ex_dropout_drop:
  "dropout_apply (1 / 10) True ex_drop [[[0], [1], [1], [1]]] = [[[0], [0], [0], [0]]]"
  by (simp add: dropout_apply_def map_indexed_def ex_drop_def)

lemma ex_linear_train:
  "linear_apply ex_classifier [[[0], [10 / 9], [10 / 9], [10 / 9]]] = Inr ex_logits_train"
  by (simp add: linear_apply_def linear_vec_def ex_classifier_def dot_def ex_logits_train_def)

lemma ex_forward_train_no_labels:
  "forward ex_model seed ex_keep (Some ex_ids) m t None ()
     = Inr \<lparr>loss = None, logits = ex_logits_train, hidden_states = None, attentions = None\<rparr>"
  by (simp add: forward_def ex_model_def ex_body_ids token_loss_def ex_base_def
      ex_dropout_keep ex_linear_train)

lemma ex_forward_p0:
  "forward ex_p0 seed keep (Some ex_ids) m t None ()
     = Inr \<lparr>loss = None, logits = ex_logits, hidden_states = None, attentions = None\<rparr>"
  by (simp add: forward_def ex_p0_def ex_model_def ex_body_ids dropout_apply_def
      token_loss_def ex_base_def ex_linear)

lemma ex_forward_train_dropped:
  "forward ex_model seed ex_drop (Some ex_ids) m t None ()
     = Inr \<lparr>loss = None, logits = replicate 1 (replicate 4 (replicate 7 0)),
            hidden_states = None, attentions = None\<rparr>"
  by (simp add: forward_def ex_model_def ex_body_ids token_loss_def ex_base_def
      ex_dropout_drop linear_apply_def linear_vec_def ex_classifier_def dot_def numeral_eq_Suc)

lemma ex_row_sum: "sum_list (map exp [0, 0, 0, 1, 0, 1, 0 :: real]) = 5 + 2 * exp 1"
  by simp

lemma ex_zero_sum: "sum_list (map exp [0, 0, 0, 0, 0, 0, 0 :: real]) = 7"
  by simp

lemma ex_nll:
  "nll ([0, 0, 0, 1, 0, 1, 0], 3) = ex_loss"
  "nll ([0, 0, 0, 1, 0, 1, 0], 5) = ex_loss"
  "nll ([0, 0, 0, 0, 0, 0, 0], 0) = ln 7"
  unfolding nll_def log_softmax_at_def ex_row_sum ex_zero_sum ex_loss_def
  by simp_all

lemma ex_forward_eval_labels:
  "forward ex_eval seed keep (Some ex_ids) m t (Some ls) () =
     (case cross_entropy (concat ex_logits) (concat ls) of
        Inl e \<Rightarrow> Inl e
      | Inr l \<Rightarrow> Inr \<lparr>loss = Some l, logits = ex_logits, hidden_states = None, attentions = None\<rparr>)"
proof -
  have n: "0 < n_labels ex_eval" by (simp add: ex_eval_def ex_model_def)
  have enc: "roberta ex_eval (training ex_eval) seed (Some ex_ids) m t () = Inr (ModelOutput ex_base)"
    by (simp add: ex_eval_def ex_model_def ex_body_ids)
  have rows: "list_all (list_all (\<lambda>v. length v = in_features (classifier ex_eval)))
      (first_output (ModelOutput ex_base))"
    by (simp add: ex_base_def ex_eval_def ex_model_def ex_classifier_def)
  have lg: "map (map (linear_vec (classifier ex_eval)))
      (dropout_apply (dropout ex_eval) (training ex_eval) keep (first_output (ModelOutput ex_base)))
      = ex_logits"
    using ex_linear
    by (simp add: ex_eval_def ex_model_def dropout_apply_def ex_base_def linear_apply_def
        split: if_splits)
  from forward_with_labels [OF ex_head_consistent(2) n enc rows, of keep ls]
  show ?thesis
    unfolding lg by (simp add: ex_base_def cong: sum.case_cong)
qed

lemma ex_rows:
  "concat ex_logits =
     [[0, 0, 0, 0, 0, 0, 0], [0, 0, 0, 1, 0, 1, 0], [0, 0, 0, 1, 0, 1, 0], [0, 0, 0, 1, 0, 1, 0]]"
  by (simp add: ex_logits_def)

lemma ex_cross_entropy:
  "cross_entropy (concat ex_logits) [- 100, 3, 5, - 100] = Inr (Finite ex_loss)"
  "cross_entropy (concat ex_logits) [0, 3, 5, - 100] = Inr (Finite ((ln 7 + 2 * ex_loss) / 3))"
  "cross_entropy (concat ex_logits) [- 100, - 100, - 100, - 100] = Inr NaN"
  "cross_entropy (concat ex_logits) [3, 5, - 100] = Inl ValueError"
  "cross_entropy (concat ex_logits) [- 100, 3, 7, - 100] = Inl IndexError"
  by (simp_all add: ex_rows cross_entropy_def active_def ignore_index_def ex_nll)

lemma ex_loss_differs: "ex_loss \<noteq> (ln 7 + 2 * ex_loss) / 3"
proof
  assume "ex_loss = (ln 7 + 2 * ex_loss) / 3"
  then have "ln (5 + 2 * exp 1) = ln 7 + (1 :: real)" by (simp add: ex_loss_def)
  also have "ln 7 + 1 = ln (7 * exp (1 :: real))" by (simp add: ln_mult)
  finally have "5 + 2 * exp 1 = 7 * exp (1 :: real)"
    by (simp add: add_pos_pos)
  then have "exp (1 :: real) = 1" by simp
  then show False by simp
qed

lemma ex_loss_nonneg: "0 \<le> ex_loss"
proof -
  have "exp (1 :: real) \<le> 5 + 2 * exp 1" using exp_ge_zero [of "1 :: real"] by linarith
  then have "ln (exp (1 :: real)) \<le> ln (5 + 2 * exp 1)"
    by (subst ln_le_cancel_iff) (simp_all add: add_pos_pos)
  then show ?thesis by (simp add: ex_loss_def)
qed

lemma ex_shapes:
  "has_shape2 ex_ids 1 4" "has_shape2 ex_labels 1 4" "has_shape3 ex_logits 1 4 7"
  "has_shape3 (last_hidden_state ex_base) 1 4 1"
  by (simp_all add: has_shape2_def has_shape3_def ex_ids_def ex_labels_def ex_logits_def
      ex_base_def)

lemma ex_eval_fields:
  "n_labels ex_eval = 7" "in_features (classifier ex_eval) = 1" "\<not> training ex_eval"
  "roberta ex_eval = ex_body" "dropout ex_eval = 1 / 10"
  by (simp_all add: ex_eval_def ex_model_def ex_classifier_def)

lemma ex_eval_classifier: "classifier ex_eval = ex_classifier"
  by (simp add: ex_eval_def ex_model_def)





lemma ex_forward_eval_gold:
  "forward ex_eval seed keep (Some ex_ids) m t (Some ex_labels) ()
     = Inr \<lparr>loss = Some (Finite ex_loss), logits = ex_logits, hidden_states = None,
            attentions = None\<rparr>"
  by (simp add: ex_forward_eval_labels ex_labels_def ex_cross_entropy)

lemma ex_body_ids_other:
  "ex_body tr seed (Some ex_ids_other) m t k = Inr (ModelOutput ex_base_other)"
  by (simp add: ex_body_def ex_ids_other_def ex_base_other_def)

lemma ex_linear_other:
  "linear_apply ex_classifier [[[1], [1], [1], [0]]] = Inr ex_logits_other"
  by (simp add: linear_apply_def linear_vec_def ex_classifier_def dot_def ex_logits_other_def)

lemma ex_cross_entropy_other:
  "cross_entropy (concat ex_logits_other) [- 100, 3, 5, - 100] = Inr (Finite ex_loss)"
  by (simp add: ex_logits_other_def cross_entropy_def active_def ignore_index_def ex_nll)

lemma ex_forward_eval_other:
  "forward ex_eval seed keep (Some ex_ids_other) m t (Some ex_labels) ()
     = Inr \<lparr>loss = Some (Finite ex_loss), logits = ex_logits_other, hidden_states = None,
            attentions = None\<rparr>"
proof -
  have n: "0 < n_labels ex_eval" by (simp add: ex_eval_fields)
  have enc: "roberta ex_eval (training ex_eval) seed (Some ex_ids_other) m t ()
      = Inr (ModelOutput ex_base_other)"
    by (simp add: ex_eval_fields ex_body_ids_other)
  have rows: "list_all (list_all (\<lambda>v. length v = in_features (classifier ex_eval)))
      (first_output (ModelOutput ex_base_other))"
    by (simp add: ex_base_other_def ex_eval_fields)
  have lg: "map (map (linear_vec (classifier ex_eval)))
      (dropout_apply (dropout ex_eval) (training ex_eval) keep
         (first_output (ModelOutput ex_base_other)))
      = ex_logits_other"
    using ex_linear_other
    by (simp add: ex_eval_fields ex_eval_classifier dropout_apply_def ex_base_other_def
        linear_apply_def split: if_splits)
  from forward_with_labels [OF ex_head_consistent(2) n enc rows, of keep ex_labels]
  show ?thesis
    unfolding lg by (simp add: ex_base_other_def ex_labels_def ex_cross_entropy_other)
qed

subsection \<open>Shape of the logits\<close>

text \<open>
  Claim C1. Let the input be a batch of \<open>B\<close> token sequences of length \<open>L\<close>, and let the
  body return one hidden vector per input token. Then every forward pass that returns,
  with or without gold labels, returns logits of shape \<open>(B, L, num_labels)\<close>; and without
  labels the pass does return (with no loss) whenever the body returned a
  \<open>ModelOutput\<close> whose hidden vectors have the classifier's input size.
\<close>

theorem forward_logits_shape:
  assumes "head_consistent self"
    and "has_shape2 ids B L"
    and "roberta self (training self) seed (Some ids) attention_mask token_type_ids kwargs
           = Inr outputs"
    and "list_all2 (\<lambda>row idrow. length row = length idrow) (first_output outputs) ids"
  shows "(\<forall>out. forward self seed keep (Some ids) attention_mask token_type_ids labels kwargs
                  = Inr out \<longrightarrow> has_shape3 (logits out) B L (n_labels self)) \<and>
         (is_model_output outputs \<and>
          list_all (list_all (\<lambda>v. length v = in_features (classifier self))) (first_output outputs)
            \<longrightarrow> (\<exists>out. forward self seed keep (Some ids) attention_mask token_type_ids None kwargs
                         = Inr out \<and>
                       loss out = None \<and> has_shape3 (logits out) B L (n_labels self)))"
proof (intro conjI allI impI)
  fix out
  assume r: "forward self seed keep (Some ids) attention_mask token_type_ids labels kwargs = Inr out"
  let ?d = "dropout_apply (dropout self) (training self) keep (first_output outputs)"
  from forward_Inr [OF r] assms(3) have
    lin: "linear_apply (classifier self) ?d = Inr (logits out)"
    by auto
  from linear_apply_Inr [OF lin] have
    lg: "logits out = map (map (linear_vec (classifier self))) ?d" and
    rows: "list_all (list_all (\<lambda>v. length v = in_features (classifier self))) ?d"
    by simp_all
  from assms(4) have "list_all2 (\<lambda>row idrow. length row = length idrow) ?d ids"
    by (simp add: dropout_apply_tokens)
  from has_shape3_of_tokens [OF assms(2) this rows]
  have "has_shape3 ?d B L (in_features (classifier self))" .
  from has_shape3_linear [OF assms(1) this] lg
  show "has_shape3 (logits out) B L (n_labels self)" by simp
next
  assume a: "is_model_output outputs \<and>
    list_all (list_all (\<lambda>v. length v = in_features (classifier self))) (first_output outputs)"
  let ?d = "dropout_apply (dropout self) (training self) keep (first_output outputs)"
  from a obtain base where b: "outputs = ModelOutput base" by (cases outputs) auto
  from a have rows: "list_all (list_all (\<lambda>v. length v = in_features (classifier self))) ?d"
    by (simp add: dropout_apply_rows)
  from assms(4) have "list_all2 (\<lambda>row idrow. length row = length idrow) ?d ids"
    by (simp add: dropout_apply_tokens)
  from has_shape3_of_tokens [OF assms(2) this rows]
  have "has_shape3 ?d B L (in_features (classifier self))" .
  from has_shape3_linear [OF assms(1) this]
  have sh: "has_shape3 (map (map (linear_vec (classifier self))) ?d) B L (n_labels self)" .
  have "forward self seed keep (Some ids) attention_mask token_type_ids None kwargs
      = Inr \<lparr>loss = None, logits = map (map (linear_vec (classifier self))) ?d,
             hidden_states = enc_hidden_states base, attentions = enc_attentions base\<rparr>"
    using assms(3) b linear_apply_ok [OF rows]
    by (simp add: forward_def token_loss_def)
  with sh show "\<exists>out. forward self seed keep (Some ids) attention_mask token_type_ids None kwargs
                         = Inr out \<and>
                       loss out = None \<and> has_shape3 (logits out) B L (n_labels self)"
    by simp
qed

text \<open>
  The scenario of the specification: the single sequence \<open>[101, 2045, 2003, 102]\<close> with
  mask \<open>[1, 1, 1, 1]\<close> and seven labels gives logits of shape \<open>(1, 4, 7)\<close> and no loss.
\<close>

theorem forward_logits_shape_witness:
  "head_consistent ex_eval \<and> has_shape2 ex_ids 1 4 \<and>
   roberta ex_eval (training ex_eval) 0 (Some ex_ids) (Some ex_mask) None ()
     = Inr (ModelOutput ex_base) \<and>
   list_all2 (\<lambda>row idrow. length row = length idrow) (first_output (ModelOutput ex_base)) ex_ids \<and>
   is_model_output (ModelOutput ex_base) \<and>
   list_all (list_all (\<lambda>v. length v = in_features (classifier ex_eval)))
     (first_output (ModelOutput ex_base)) \<and>
   forward ex_eval 0 ex_keep (Some ex_ids) (Some ex_mask) None None ()
     = Inr \<lparr>loss = None, logits = ex_logits, hidden_states = None, attentions = None\<rparr> \<and>
   forward ex_eval 0 ex_keep (Some ex_ids) (Some ex_mask) None (Some ex_labels) ()
     = Inr \<lparr>loss = Some (Finite ex_loss), logits = ex_logits, hidden_states = None,
            attentions = None\<rparr> \<and>
   n_labels ex_eval = 7 \<and>
   has_shape3 ex_logits 1 4 7"
proof -
  let ?gold = "\<lparr>loss = Some (Finite ex_loss), logits = ex_logits, hidden_states = None,
            attentions = None\<rparr>"
  have h1: "head_consistent ex_eval" by (rule ex_head_consistent)
  have h2: "has_shape2 ex_ids 1 4" by (rule ex_shapes)
  have h3: "roberta ex_eval (training ex_eval) 0 (Some ex_ids) (Some ex_mask) None ()
      = Inr (ModelOutput ex_base)"
    by (simp add: ex_eval_fields ex_body_ids)
  have h4: "list_all2 (\<lambda>row idrow. length row = length idrow)
      (first_output (ModelOutput ex_base)) ex_ids"
    by (simp add: ex_base_def ex_ids_def)
  have h5: "is_model_output (ModelOutput ex_base)" by simp
  have h6: "list_all (list_all (\<lambda>v. length v = in_features (classifier ex_eval)))
     (first_output (ModelOutput ex_base))"
    by (simp add: ex_base_def ex_eval_fields)
  have n: "n_labels ex_eval = 7" by (rule ex_eval_fields)
  have g: "forward ex_eval 0 ex_keep (Some ex_ids) (Some ex_mask) None (Some ex_labels) ()
     = Inr ?gold"
    by (rule ex_forward_eval_gold)
  from forward_logits_shape [OF h1 h2 h3 h4, of ex_keep "Some ex_labels"] g
  have "has_shape3 (logits ?gold) 1 4 (n_labels ex_eval)" by blast
  then have s: "has_shape3 ex_logits 1 4 7" by (simp add: n)
  from h1 h2 h3 h4 h5 h6 ex_forward_eval_no_labels g n s show ?thesis by blast
qed

subsection \<open>The loss and the ignore sentinel\<close>

text \<open>
  Claim C2, as the code has it. A position whose label is the sentinel \<open>-100\<close> is
  excluded from the loss: the logits at such a position never affect it. Two forward
  passes with the same labels whose logits agree at every position labelled otherwise
  return the same loss, which is the cross-entropy of the flattened logits and labels;
  and for the labels \<open>[-100, 3, 5, -100]\<close> it is the mean of the two terms of positions
  1 and 2.
\<close>

theorem loss_ignores_sentinel_positions:
  assumes "head_consistent self" and "head_consistent self'"
    and "forward self seed keep input_ids attention_mask token_type_ids (Some ls) kwargs
           = Inr out"
    and "forward self' seed' keep' input_ids' attention_mask' token_type_ids' (Some ls) kwargs'
           = Inr out'"
    and "\<forall>i<length (concat ls). concat ls ! i \<noteq> ignore_index \<longrightarrow>
           concat (logits out') ! i = concat (logits out) ! i"
  shows "loss out' = loss out \<and>
         (\<exists>l. loss out = Some l \<and> cross_entropy (concat (logits out)) (concat ls) = Inr l) \<and>
         (ls = [[- 100, 3, 5, - 100]] \<longrightarrow>
            loss out = Some (Finite ((nll (concat (logits out) ! 1, 3)
                                      + nll (concat (logits out) ! 2, 5)) / 2)))"
proof -
  from forward_loss [OF assms(1,3)] obtain l where
    l: "cross_entropy (concat (logits out)) (concat ls) = Inr l" "loss out = Some l" by blast
  from forward_loss [OF assms(2,4)] obtain l' where
    l': "cross_entropy (concat (logits out')) (concat ls) = Inr l'" "loss out' = Some l'" by blast
  from cross_entropy_Inr_length [OF l(1)] cross_entropy_Inr_length [OF l'(1)]
  have len: "length (concat (logits out')) = length (concat (logits out))" by simp
  from cross_entropy_cong [OF len assms(5)] l l' have eq: "loss out' = loss out" by simp
  have "loss out = Some (Finite ((nll (concat (logits out) ! 1, 3)
                                      + nll (concat (logits out) ! 2, 5)) / 2))"
    if ls: "ls = [[- 100, 3, 5, - 100]]"
  proof -
    from cross_entropy_Inr_length [OF l(1)] ls have "length (concat (logits out)) = 4" by simp
    then obtain r0 r1 r2 r3 where rs: "concat (logits out) = [r0, r1, r2, r3]"
      by (auto simp: length_Suc_conv numeral_eq_Suc)
    from l ls show ?thesis
      by (auto simp: rs cross_entropy_def active_def ignore_index_def split: if_splits)
  qed
  with eq l show ?thesis by blast
qed

text \<open>
  The theorem on the worked input and on a second input whose logits differ at
  positions 0 and 3 only.
\<close>

theorem loss_ignores_sentinel_positions_witness:
  "head_consistent ex_eval \<and>
   forward ex_eval 0 ex_keep (Some ex_ids) (Some ex_mask) None (Some ex_labels) ()
     = Inr \<lparr>loss = Some (Finite ex_loss), logits = ex_logits, hidden_states = None,
            attentions = None\<rparr> \<and>
   forward ex_eval 1 ex_drop (Some ex_ids_other) (Some ex_mask) None (Some ex_labels) ()
     = Inr \<lparr>loss = Some (Finite ex_loss), logits = ex_logits_other, hidden_states = None,
            attentions = None\<rparr> \<and>
   ex_labels = [[- 100, 3, 5, - 100]] \<and>
   concat ex_logits_other ! 0 \<noteq> concat ex_logits ! 0 \<and>
   concat ex_logits_other ! 1 = concat ex_logits ! 1 \<and>
   concat ex_logits_other ! 2 = concat ex_logits ! 2 \<and>
   concat ex_logits_other ! 3 \<noteq> concat ex_logits ! 3 \<and>
   cross_entropy (concat ex_logits) (concat ex_labels) = Inr (Finite ex_loss) \<and>
   ex_loss = (nll (concat ex_logits ! 1, 3) + nll (concat ex_logits ! 2, 5)) / 2"
proof -
  let ?out = "\<lparr>loss = Some (Finite ex_loss), logits = ex_logits, hidden_states = None,
            attentions = None\<rparr>"
  let ?out' = "\<lparr>loss = Some (Finite ex_loss), logits = ex_logits_other, hidden_states = None,
            attentions = None\<rparr>"
  have f: "forward ex_eval 0 ex_keep (Some ex_ids) (Some ex_mask) None (Some ex_labels) ()
     = Inr ?out"
    by (rule ex_forward_eval_gold)
  have f': "forward ex_eval 1 ex_drop (Some ex_ids_other) (Some ex_mask) None (Some ex_labels) ()
     = Inr ?out'"
    by (rule ex_forward_eval_other)
  have agree: "\<forall>i<length (concat ex_labels). concat ex_labels ! i \<noteq> ignore_index \<longrightarrow>
      concat (logits ?out') ! i = concat (logits ?out) ! i"
    by (auto simp: ex_labels_def ignore_index_def ex_logits_def ex_logits_other_def less_Suc_eq)
  have l: "ex_labels = [[- 100, 3, 5, - 100]]" by (simp add: ex_labels_def)
  have d: "concat ex_logits_other ! 0 \<noteq> concat ex_logits ! 0"
    "concat ex_logits_other ! 1 = concat ex_logits ! 1"
    "concat ex_logits_other ! 2 = concat ex_logits ! 2"
    "concat ex_logits_other ! 3 \<noteq> concat ex_logits ! 3"
    by (simp_all add: ex_logits_def ex_logits_other_def)
  from loss_ignores_sentinel_positions
    [OF ex_head_consistent(2) ex_head_consistent(2) f f' agree] l
  have "cross_entropy (concat ex_logits) (concat ex_labels) = Inr (Finite ex_loss) \<and>
      ex_loss = (nll (concat ex_logits ! 1, 3) + nll (concat ex_logits ! 2, 5)) / 2"
    by auto
  with ex_head_consistent(2) f f' l d show ?thesis by blast
qed

text \<open>
  The claim as stated (changing the label value at an ignored position never changes
  the loss) fails: a position is ignored because of its label value, so replacing the
  sentinel at position 0 by the class 0 makes that position count.
\<close>

theorem relabelling_ignored_position_changes_loss:
  "forward ex_eval 0 ex_keep (Some ex_ids) (Some ex_mask) None (Some [[- 100, 3, 5, - 100]]) ()
     = Inr \<lparr>loss = Some (Finite ex_loss), logits = ex_logits, hidden_states = None,
            attentions = None\<rparr> \<and>
   forward ex_eval 0 ex_keep (Some ex_ids) (Some ex_mask) None (Some [[0, 3, 5, - 100]]) ()
     = Inr \<lparr>loss = Some (Finite ((ln 7 + 2 * ex_loss) / 3)), logits = ex_logits,
            hidden_states = None, attentions = None\<rparr> \<and>
   ex_loss \<noteq> (ln 7 + 2 * ex_loss) / 3"
  using ex_loss_differs by (simp add: ex_forward_eval_labels ex_cross_entropy)

subsection \<open>Presence of the loss\<close>




subsection \<open>From hidden states to logits\<close>

text \<open>
  Claim C4. A forward pass that returns has called the body, which returned a
  \<open>ModelOutput\<close>; its logits are the classifier applied to every vector of the dropout
  of the last layer's hidden states, one logit vector per token position, and in
  inference mode the dropout is the identity. With a consistent head, logit \<open>k\<close> of a
  token is the inner product of weight row \<open>k\<close> with the token's vector plus bias \<open>k\<close>.
  The body is the one the constructor built with \<open>add_pooling_layer = False\<close>.
\<close>

theorem forward_logits_from_hidden_states:
  assumes "forward self seed keep input_ids attention_mask token_type_ids labels kwargs = Inr out"
  shows "\<exists>base.
     roberta self (training self) seed input_ids attention_mask token_type_ids kwargs
       = Inr (ModelOutput base) \<and>
     logits out = map (map (linear_vec (classifier self)))
       (dropout_apply (dropout self) (training self) keep (last_hidden_state base)) \<and>
     (\<not> training self \<longrightarrow>
        logits out = map (map (linear_vec (classifier self))) (last_hidden_state base)) \<and>
     length (logits out) = length (last_hidden_state base) \<and>
     (\<forall>b t. b < length (last_hidden_state base) \<and> t < length (last_hidden_state base ! b) \<longrightarrow>
        length (logits out ! b) = length (last_hidden_state base ! b) \<and>
        logits out ! b ! t = linear_vec (classifier self)
          (dropout_apply (dropout self) (training self) keep (last_hidden_state base) ! b ! t) \<and>
        (head_consistent self \<longrightarrow>
           (\<forall>k<n_labels self. logits out ! b ! t ! k =
              (\<Sum>j<in_features (classifier self).
                 weight (classifier self) ! k ! j *
                 dropout_apply (dropout self) (training self) keep (last_hidden_state base)
                   ! b ! t ! j)
              + bias (classifier self) ! k))) \<and>
     (\<forall>RobertaModel sample cfg. init RobertaModel sample cfg = Inr self \<longrightarrow>
        RobertaModel cfg False = Inr (roberta self))"
proof -
  from forward_Inr [OF assms] obtain base where
    enc: "roberta self (training self) seed input_ids attention_mask token_type_ids kwargs
            = Inr (ModelOutput base)" and
    lin: "linear_apply (classifier self)
            (dropout_apply (dropout self) (training self) keep (last_hidden_state base))
            = Inr (logits out)"
    by blast
  let ?d = "dropout_apply (dropout self) (training self) keep (last_hidden_state base)"
  from linear_apply_Inr [OF lin] have
    lg: "logits out = map (map (linear_vec (classifier self))) ?d" and
    rows: "list_all (list_all (\<lambda>v. length v = in_features (classifier self))) ?d"
    by simp_all
  have dl: "length ?d = length (last_hidden_state base)" by simp
  have dr: "length (?d ! b) = length (last_hidden_state base ! b)"
    if "b < length (last_hidden_state base)" for b
    using that by (simp add: dropout_apply_def)
  have inf: "\<not> training self \<Longrightarrow> ?d = last_hidden_state base"
    by (simp add: dropout_apply_def)
  have pt: "length (logits out ! b) = length (last_hidden_state base ! b) \<and>
        logits out ! b ! t = linear_vec (classifier self) (?d ! b ! t) \<and>
        (head_consistent self \<longrightarrow>
           (\<forall>k<n_labels self. logits out ! b ! t ! k =
              (\<Sum>j<in_features (classifier self). weight (classifier self) ! k ! j * ?d ! b ! t ! j)
              + bias (classifier self) ! k))"
    if b: "b < length (last_hidden_state base)" and t: "t < length (last_hidden_state base ! b)"
    for b t
  proof -
    from b t dl dr have bt: "b < length ?d" "t < length (?d ! b)" by simp_all
    with lg have e: "logits out ! b ! t = linear_vec (classifier self) (?d ! b ! t)"
      and l: "length (logits out ! b) = length (last_hidden_state base ! b)"
      using dr [OF b] by simp_all
    from rows bt have len: "length (?d ! b ! t) = in_features (classifier self)"
      by (simp add: list_all_length)
    have "logits out ! b ! t ! k =
        (\<Sum>j<in_features (classifier self). weight (classifier self) ! k ! j * ?d ! b ! t ! j)
        + bias (classifier self) ! k"
      if hc: "head_consistent self" and k: "k < n_labels self" for k
    proof -
      from hc k have kw: "k < length (weight (classifier self))"
        and kb: "k < length (bias (classifier self))"
        and wl: "length (weight (classifier self) ! k) = in_features (classifier self)"
        by (simp_all add: head_consistent_def list_all_length)
      from len wl have "dot (weight (classifier self) ! k) (?d ! b ! t) =
        (\<Sum>j<in_features (classifier self). weight (classifier self) ! k ! j * ?d ! b ! t ! j)"
        using dot_sum [of "?d ! b ! t" "weight (classifier self) ! k"] by simp
      with e linear_vec_nth [OF kw kb] show ?thesis by simp
    qed
    with e l show ?thesis by blast
  qed
  have ini: "RobertaModel cfg False = Inr (roberta self)"
    if "init RobertaModel sample cfg = Inr self" for RobertaModel sample cfg
    using init_Inr [OF that] by (metis model.select_convs(3))
  from lg inf have inf': "\<not> training self \<longrightarrow>
      logits out = map (map (linear_vec (classifier self))) (last_hidden_state base)"
    by simp
  from lg dl have len: "length (logits out) = length (last_hidden_state base)" by simp
  from enc lg inf' len pt ini show ?thesis by blast
qed

text \<open>
  The theorem on the constructed model in training mode, with a mask that keeps every
  entry, and on the same model in inference mode.
\<close>

theorem forward_logits_from_hidden_states_witness:
  "forward ex_model 0 ex_keep (Some ex_ids) (Some ex_mask) None None ()
     = Inr \<lparr>loss = None, logits = ex_logits_train, hidden_states = None, attentions = None\<rparr> \<and>
   training ex_model \<and> head_consistent ex_model \<and>
   init ex_RobertaModel ex_sample ex_config = Inr ex_model \<and>
   ex_RobertaModel ex_config False = Inr (roberta ex_model) \<and>
   roberta ex_model True 0 (Some ex_ids) (Some ex_mask) None () = Inr (ModelOutput ex_base) \<and>
   ex_logits_train = map (map (linear_vec (classifier ex_model)))
     (dropout_apply (1 / 10) True ex_keep (last_hidden_state ex_base)) \<and>
   ex_logits_train ! 0 ! 1 ! 3 =
     (\<Sum>j<in_features (classifier ex_model). weight (classifier ex_model) ! 3 ! j *
        dropout_apply (1 / 10) True ex_keep (last_hidden_state ex_base) ! 0 ! 1 ! j)
     + bias (classifier ex_model) ! 3 \<and>
   forward ex_eval 0 ex_keep (Some ex_ids) (Some ex_mask) None None ()
     = Inr \<lparr>loss = None, logits = ex_logits, hidden_states = None, attentions = None\<rparr> \<and>
   \<not> training ex_eval \<and>
   ex_logits = map (map (linear_vec (classifier ex_eval))) (last_hidden_state ex_base)"
proof -
  let ?out = "\<lparr>loss = None, logits = ex_logits_train, hidden_states = None, attentions = None\<rparr>"
  let ?oute = "\<lparr>loss = None, logits = ex_logits, hidden_states = None, attentions = None\<rparr>"
  have f: "forward ex_model 0 ex_keep (Some ex_ids) (Some ex_mask) None None () = Inr ?out"
    by (rule ex_forward_train_no_labels)
  have fe: "forward ex_eval 0 ex_keep (Some ex_ids) (Some ex_mask) None None () = Inr ?oute"
    by (rule ex_forward_eval_no_labels)
  have tr: "training ex_model" "\<not> training ex_eval" "dropout ex_model = 1 / 10"
    by (simp_all add: ex_model_def ex_eval_def)
  have enc: "roberta ex_model True 0 (Some ex_ids) (Some ex_mask) None () = Inr (ModelOutput ex_base)"
    "roberta ex_eval False 0 (Some ex_ids) (Some ex_mask) None () = Inr (ModelOutput ex_base)"
    by (simp_all add: ex_model_def ex_eval_def ex_body_ids)
  have sz: "0 < length (last_hidden_state ex_base)" "1 < length (last_hidden_state ex_base ! 0)"
    "(3::nat) < n_labels ex_model"
    by (simp_all add: ex_base_def ex_model_def)
  from forward_logits_from_hidden_states [OF f] obtain base where
    r: "roberta ex_model (training ex_model) 0 (Some ex_ids) (Some ex_mask) None ()
          = Inr (ModelOutput base)" and
    l: "logits ?out = map (map (linear_vec (classifier ex_model)))
          (dropout_apply (dropout ex_model) (training ex_model) ex_keep (last_hidden_state base))" and
    pt: "\<forall>b t. b < length (last_hidden_state base) \<and> t < length (last_hidden_state base ! b) \<longrightarrow>
        length (logits ?out ! b) = length (last_hidden_state base ! b) \<and>
        logits ?out ! b ! t = linear_vec (classifier ex_model)
          (dropout_apply (dropout ex_model) (training ex_model) ex_keep (last_hidden_state base)
             ! b ! t) \<and>
        (head_consistent ex_model \<longrightarrow>
           (\<forall>k<n_labels ex_model. logits ?out ! b ! t ! k =
              (\<Sum>j<in_features (classifier ex_model).
                 weight (classifier ex_model) ! k ! j *
                 dropout_apply (dropout ex_model) (training ex_model) ex_keep
                   (last_hidden_state base) ! b ! t ! j)
              + bias (classifier ex_model) ! k))" and
    ini: "\<forall>RobertaModel sample cfg. init RobertaModel sample cfg = Inr ex_model \<longrightarrow>
        RobertaModel cfg False = Inr (roberta ex_model)"
    by blast
  from r enc(1) tr(1) have base: "base = ex_base" by simp
  have dp: "dropout_apply (dropout ex_model) (training ex_model) = dropout_apply (1 / 10) True"
    by (simp add: ex_model_def)
  have lo: "logits ?out = ex_logits_train" by simp
  from pt sz(1,2) base have "head_consistent ex_model \<longrightarrow>
           (\<forall>k<n_labels ex_model. logits ?out ! 0 ! 1 ! k =
              (\<Sum>j<in_features (classifier ex_model).
                 weight (classifier ex_model) ! k ! j *
                 dropout_apply (dropout ex_model) (training ex_model) ex_keep
                   (last_hidden_state ex_base) ! 0 ! 1 ! j)
              + bias (classifier ex_model) ! k)"
    by blast
  with ex_head_consistent(1) sz(3) have
    "logits ?out ! 0 ! 1 ! 3 =
              (\<Sum>j<in_features (classifier ex_model).
                 weight (classifier ex_model) ! 3 ! j *
                 dropout_apply (dropout ex_model) (training ex_model) ex_keep
                   (last_hidden_state ex_base) ! 0 ! 1 ! j)
              + bias (classifier ex_model) ! 3"
    by blast
  then have a2: "ex_logits_train ! 0 ! 1 ! 3 =
       (\<Sum>j<in_features (classifier ex_model). weight (classifier ex_model) ! 3 ! j *
          dropout_apply (1 / 10) True ex_keep (last_hidden_state ex_base) ! 0 ! 1 ! j)
       + bias (classifier ex_model) ! 3"
    unfolding dp lo .
  from l have a1: "ex_logits_train = map (map (linear_vec (classifier ex_model)))
       (dropout_apply (1 / 10) True ex_keep (last_hidden_state ex_base))"
    unfolding dp lo base .
  from ini init_ex have a3: "ex_RobertaModel ex_config False = Inr (roberta ex_model)"
    by blast
  note a = conjI [OF a1 conjI [OF a2 a3]]
  from forward_logits_from_hidden_states [OF fe] enc(2) tr
  have b: "ex_logits = map (map (linear_vec (classifier ex_eval))) (last_hidden_state ex_base)"
    by auto
  from f fe tr(1,2) enc(1) ex_head_consistent(1) init_ex a1 a2 a3 b show ?thesis by blast
qed

subsection \<open>All labels ignored\<close>

text \<open>
  Claim C5. When every supplied label is the sentinel \<open>-100\<close> (and there is one label
  per token position, and at least one class), the forward pass does not raise, and its
  loss is \<open>nan\<close> whatever the logits are: no position contributes.
\<close>

theorem all_labels_ignored_gives_nan:
  assumes "head_consistent self" and "0 < n_labels self"
    and "roberta self (training self) seed input_ids attention_mask token_type_ids kwargs
           = Inr (ModelOutput base)"
    and "has_shape3 (last_hidden_state base) B L (in_features (classifier self))"
    and "length (concat ls) = B * L"
    and "list_all (list_all (\<lambda>y. y = ignore_index)) ls"
  shows "forward self seed keep input_ids attention_mask token_type_ids (Some ls) kwargs =
     Inr \<lparr>loss = Some NaN,
          logits = map (map (linear_vec (classifier self)))
            (dropout_apply (dropout self) (training self) keep (last_hidden_state base)),
          hidden_states = enc_hidden_states base, attentions = enc_attentions base\<rparr>"
proof -
  let ?d = "dropout_apply (dropout self) (training self) keep (last_hidden_state base)"
  let ?lg = "map (map (linear_vec (classifier self))) ?d"
  from assms(4) have rows: "list_all (list_all (\<lambda>v. length v = in_features (classifier self)))
      (first_output (ModelOutput base))"
    by (auto dest: rows_of_shape3)
  from assms(4) have "has_shape3 ?d B L (in_features (classifier self))"
    by (simp add: dropout_apply_shape)
  from has_shape3_concat [OF has_shape3_linear [OF assms(1) this]] assms(5)
  have len: "length (concat ?lg) = length (concat ls)" by simp
  from assms(6) have "list_all (\<lambda>y. y = ignore_index) (concat ls)" by (rule list_all_concat)
  from cross_entropy_all_ignored [OF len this]
    forward_with_labels [OF assms(1,2,3) rows, of keep ls]
  show ?thesis by simp
qed

theorem all_labels_ignored_gives_nan_witness:
  "head_consistent ex_eval \<and> 0 < n_labels ex_eval \<and>
   roberta ex_eval (training ex_eval) 0 (Some ex_ids) (Some ex_mask) None ()
     = Inr (ModelOutput ex_base) \<and>
   has_shape3 (last_hidden_state ex_base) 1 4 (in_features (classifier ex_eval)) \<and>
   length (concat [[- 100, - 100, - 100, - 100 :: int]]) = 1 * 4 \<and>
   list_all (list_all (\<lambda>y. y = ignore_index)) [[- 100, - 100, - 100, - 100]] \<and>
   forward ex_eval 0 ex_keep (Some ex_ids) (Some ex_mask) None
       (Some [[- 100, - 100, - 100, - 100]]) ()
     = Inr \<lparr>loss = Some NaN, logits = ex_logits, hidden_states = None, attentions = None\<rparr>"
proof -
  have h2: "0 < n_labels ex_eval" by (simp add: ex_eval_fields)
  have h3: "roberta ex_eval (training ex_eval) 0 (Some ex_ids) (Some ex_mask) None ()
     = Inr (ModelOutput ex_base)"
    by (simp add: ex_eval_fields ex_body_ids)
  have h4: "has_shape3 (last_hidden_state ex_base) 1 4 (in_features (classifier ex_eval))"
    using ex_shapes(4) by (simp add: ex_eval_fields)
  have h5: "length (concat [[- 100, - 100, - 100, - 100 :: int]]) = 1 * 4" by simp
  have h6: "list_all (list_all (\<lambda>y. y = ignore_index)) [[- 100, - 100, - 100, - 100]]"
    by (simp add: ignore_index_def)
  have lg: "map (map (linear_vec (classifier ex_eval)))
      (dropout_apply (dropout ex_eval) (training ex_eval) ex_keep (last_hidden_state ex_base))
      = ex_logits"
    using ex_linear
    by (simp add: ex_eval_fields ex_eval_classifier dropout_apply_def ex_base_def
        linear_apply_def split: if_splits)
  from all_labels_ignored_gives_nan [OF ex_head_consistent(2) h2 h3 h4 h5 h6, of ex_keep]
  have "forward ex_eval 0 ex_keep (Some ex_ids) (Some ex_mask) None
       (Some [[- 100, - 100, - 100, - 100]]) ()
     = Inr \<lparr>loss = Some NaN, logits = ex_logits, hidden_states = None, attentions = None\<rparr>"
    unfolding lg by (simp add: ex_base_def)
  with ex_head_consistent(2) h2 h3 h4 h5 h6 show ?thesis by blast
qed

subsection \<open>Determinism without dropout\<close>









text \<open>
  With a dropout probability strictly between 0 and 1 and in training mode the mask of
  the head matters too, so the hypothesis on the dropout cannot be dropped.
\<close>

lemma dropout_makes_training_random:
  "forward ex_model 0 ex_keep (Some ex_ids) (Some ex_mask) None None ()
     \<noteq> forward ex_model 0 ex_drop (Some ex_ids) (Some ex_mask) None None ()"
  by (simp add: ex_forward_train_no_labels ex_forward_train_dropped ex_logits_train_def
      numeral_eq_Suc)

subsection \<open>Labels that do not match the logits\<close>

text \<open>
  Claim C7, as the code has it. Both tensors are flattened before they are compared, so
  what must match is the number of labels and the number of token positions: when the
  body returned hidden states of shape \<open>(B, L, H)\<close> and the labels do not have
  \<open>B * L\<close> entries, the forward pass raises, and the exception is the loss function's
  \<open>ValueError\<close> when the classifier and the view succeed.
\<close>

theorem forward_label_count_mismatch_raises:
  assumes "head_consistent self"
    and "roberta self (training self) seed input_ids attention_mask token_type_ids kwargs
           = Inr outputs"
    and "has_shape3 (first_output outputs) B L H"
    and "length (concat ls) \<noteq> B * L"
  shows "(\<exists>e. forward self seed keep input_ids attention_mask token_type_ids (Some ls) kwargs
                = Inl e) \<and>
         (H = in_features (classifier self) \<and> 0 < n_labels self \<longrightarrow>
            forward self seed keep input_ids attention_mask token_type_ids (Some ls) kwargs
              = Inl ValueError)"
proof
  let ?d = "dropout_apply (dropout self) (training self) keep (first_output outputs)"
  let ?lg = "map (map (linear_vec (classifier self))) ?d"
  from assms(3) have "has_shape3 ?d B L H" by (simp add: dropout_apply_shape)
  from has_shape3_linear [OF assms(1) this] have "has_shape3 ?lg B L (n_labels self)" .
  from has_shape3_concat [OF this] have len: "length (concat ?lg) = B * L" by simp
  show "\<exists>e. forward self seed keep input_ids attention_mask token_type_ids (Some ls) kwargs
                = Inl e"
  proof (cases "forward self seed keep input_ids attention_mask token_type_ids (Some ls) kwargs")
    case (Inl e)
    then show ?thesis by blast
  next
    case (Inr out)
    from forward_Inr [OF Inr] assms(2) have
      "linear_apply (classifier self) ?d = Inr (logits out)" by auto
    from linear_apply_Inr [OF this] have lg: "logits out = ?lg" by simp
    from forward_loss [OF assms(1) Inr] obtain l where
      "cross_entropy (concat (logits out)) (concat ls) = Inr l" by blast
    then have "length (concat (logits out)) = length (concat ls)"
      by (auto simp: cross_entropy_def split: if_splits)
    with lg len assms(4) show ?thesis by simp
  qed
  show "H = in_features (classifier self) \<and> 0 < n_labels self \<longrightarrow>
            forward self seed keep input_ids attention_mask token_type_ids (Some ls) kwargs
              = Inl ValueError"
  proof
    assume a: "H = in_features (classifier self) \<and> 0 < n_labels self"
    with assms(3) have rows: "list_all (list_all (\<lambda>v. length v = in_features (classifier self)))
           (first_output outputs)"
      by (auto dest: rows_of_shape3)
    from a have n: "0 < n_labels self" by simp
    from len assms(4) have "cross_entropy (concat ?lg) (concat ls) = Inl ValueError"
      by (simp add: cross_entropy_def)
    with forward_with_labels [OF assms(1) n assms(2) rows, of keep ls]
    show "forward self seed keep input_ids attention_mask token_type_ids (Some ls) kwargs
              = Inl ValueError"
      by simp
  qed
qed

text \<open>
  The theorem on the worked input with three labels for four positions.
\<close>

theorem forward_label_count_mismatch_raises_witness:
  "head_consistent ex_eval \<and>
   roberta ex_eval (training ex_eval) 0 (Some ex_ids) (Some ex_mask) None ()
     = Inr (ModelOutput ex_base) \<and>
   has_shape3 (first_output (ModelOutput ex_base)) 1 4 1 \<and>
   length (concat [[3, 5, - 100 :: int]]) \<noteq> 1 * 4 \<and>
   1 = in_features (classifier ex_eval) \<and> 0 < n_labels ex_eval \<and>
   forward ex_eval 0 ex_keep (Some ex_ids) (Some ex_mask) None (Some [[3, 5, - 100]]) ()
     = Inl ValueError"
proof -
  have h2: "roberta ex_eval (training ex_eval) 0 (Some ex_ids) (Some ex_mask) None ()
     = Inr (ModelOutput ex_base)"
    by (simp add: ex_eval_fields ex_body_ids)
  have h3: "has_shape3 (first_output (ModelOutput ex_base)) 1 4 1"
    using ex_shapes(4) by simp
  have h4: "length (concat [[3, 5, - 100 :: int]]) \<noteq> 1 * 4" by simp
  from forward_label_count_mismatch_raises [OF ex_head_consistent(2) h2 h3 h4, of ex_keep]
  show ?thesis
    using ex_head_consistent(2) h2 h3 h4 by (simp add: ex_eval_fields)
qed

text \<open>
  The claim as stated (every label tensor whose shape is not the logits' leading shape
  makes the pass fail) fails on labels of shape \<open>(4, 1)\<close> for logits of shape
  \<open>(1, 4, 7)\<close>: the pass returns a loss.
\<close>

theorem forward_accepts_reshaped_labels:
  "\<not> has_shape2 [[- 100], [3], [5], [- 100 :: int]] 1 4 \<and>
   has_shape3 ex_logits 1 4 7 \<and>
   forward ex_eval 0 ex_keep (Some ex_ids) (Some ex_mask) None
       (Some [[- 100], [3], [5], [- 100]]) ()
     = Inr \<lparr>loss = Some (Finite ex_loss), logits = ex_logits, hidden_states = None,
            attentions = None\<rparr>"
  using ex_shapes(3) by (simp add: ex_forward_eval_labels ex_cross_entropy has_shape2_def)

end
